theory Spec2Isabelle
  imports Main "HOL-Library.Sublist" "HOL-Library.Multiset"
begin

section \<open>Errors\<close>

text \<open>
  Go's \<open>error\<close> interface is open. The model separates the errors that are born outside
  this repository (the Gitea SDK, the Go standard library) from the errors the repository
  builds itself. An \<open>ext_error\<close> is opaque: only its message is kept.
\<close>

datatype ext_error = ExtError string

text \<open>The two failure kinds of \<open>strconv.ParseInt\<close> (\<open>strconv.ErrSyntax\<close>, \<open>strconv.ErrRange\<close>).\<close>

datatype num_err = ErrSyntax | ErrRange

text \<open>
  \<^item> \<open>External e\<close>: an SDK or library error handed on unchanged;
  \<^item> \<open>New msg\<close>: \<open>fmt.Errorf\<close> without \<open>%w\<close>;
  \<^item> \<open>Errorf prefix cause\<close>: \<open>fmt.Errorf(prefix + "%w", cause)\<close>;
  \<^item> \<open>NumError fn input kind\<close>: \<open>*strconv.NumError\<close>;
  \<^item> \<open>ErrNoMilestoneFound title\<close> and \<open>RetriableError cause\<close>: the two error types of
    package \<open>client\<close> that \<open>gitea.go\<close> constructs. Modelled from the spec: their
    declarations are missing from the sources; the spec describes them as the distinguished
    "no such milestone" condition and the marker that wraps an underlying failure;
  \<^item> \<open>MultiError es\<close>: the combined error of the error memo (see below).
\<close>

datatype error =
    External ext_error
  | New string
  | Errorf string error
  | NumError string string num_err
  | ErrNoMilestoneFound string
  | RetriableError error
  | MultiError "error list"

text \<open>Whether an error is the \<open>RetriableError\<close> marker around some cause.\<close>

fun is_retriable :: "error \<Rightarrow> bool" where
  "is_retriable (RetriableError cause) = True"
| "is_retriable err = False"

section \<open>The run context\<close>

text \<open>
  Only the fields that \<open>gitea.go\<close> and \<open>publish.go\<close> read are kept. Field names of
  different Go structs that coincide are told apart by a short prefix.

  Modelled from the spec: the type \<open>context.ReleaseNotesMode\<close> is missing from the
  sources; the spec lists its modes as keep-existing, append-to-existing, replace and
  error-if-exists. The client only hands the mode on to \<open>getReleaseNotes\<close>.
\<close>

datatype ReleaseNotesMode =
  ReleaseNotesModeKeepExisting | ReleaseNotesModeAppend | ReleaseNotesModeReplace
  | ReleaseNotesModeErrorIfExists

record GiteaURLs =
  API :: string
  Download :: string
  SkipTLSVerify :: bool

record config_Repo =
  cfg_Owner :: string
  cfg_Name :: string

record config_Release =
  Gitea :: config_Repo
  Draft :: bool
  NameTemplate :: string
  ReleaseNotesMode :: ReleaseNotesMode

record Project =
  GiteaURLs :: GiteaURLs
  Release :: config_Release

record GitInfo =
  CurrentTag :: string
  Commit :: string

record Context =
  Config :: Project
  Git :: GitInfo
  PreRelease :: bool
  FailFast :: bool

section \<open>The publishing pipeline (\<open>internal/pipe/publish/publish.go\<close>)\<close>

text \<open>
  A \<open>Publisher\<close> has a name (\<open>fmt.Stringer\<close>) and a \<open>Publish\<close> method, which may change
  the context it is given. The two optional interfaces a publisher may implement,
  \<open>skip.Skipper\<close> and \<open>Continuable\<close>, are optional fields: \<open>None\<close> when the type
  assertion of the source fails.
\<close>

record Publisher =
  String :: string
  Publish :: "Context \<Rightarrow> error option \<times> Context"
  Skip :: "(Context \<Rightarrow> bool) option"
  ContinueOnError :: "bool option"

record Pipe =
  pipeline :: "Publisher list"

text \<open>
  The state of one run: the context, and the runner's events in order. An event is
  written when a publisher's \<open>Publish\<close> is called and when a publisher is skipped; the
  events exist to say which stages executed.
\<close>

datatype event = Invoked string | Skipped string

fun event_name :: "event \<Rightarrow> string" where
  "event_name (Invoked n) = n"
| "event_name (Skipped n) = n"

record run_state =
  ctx :: Context
  events :: "event list"

type_synonym Action = "run_state \<Rightarrow> error option \<times> run_state"

text \<open>The call \<open>publisher.Publish(ctx)\<close> as an action.\<close>

definition Publish_action :: "Publisher \<Rightarrow> Action" where
  "Publish_action publisher st =
     (case Publish publisher (ctx st) of
        (err, c') \<Rightarrow> (err, \<lparr>ctx = c', events = events st @ [Invoked (String publisher)]\<rparr>))"

text \<open>
  Modelled from the spec: \<open>errhandler.Handle\<close>, the error-classification wrapper, is
  missing from the sources. It runs the action once; what it makes of the action's error
  is the parameter \<open>h\<close> (the identity \<open>Some\<close> when every error is handed on).
\<close>

definition Handle :: "(error \<Rightarrow> error option) \<Rightarrow> Action \<Rightarrow> Action" where
  "Handle h action st =
     (case action st of
        (None, st') \<Rightarrow> (None, st')
      | (Some err, st') \<Rightarrow> (h err, st'))"

text \<open>
  Modelled from the spec: \<open>logging.PadLog\<close>, the logging wrapper that prefixes output with
  the stage name, is missing from the sources. Logging does not change the result.
\<close>

definition PadLog :: "string \<Rightarrow> Action \<Rightarrow> Action" where
  "PadLog title next_action = next_action"

text \<open>
  Modelled from the spec: \<open>skip.Maybe\<close> is missing from the sources. "If its skip
  predicate (when present) evaluates true, log and omit execution entirely (no error
  recorded)."
\<close>

definition Maybe :: "Publisher \<Rightarrow> Action \<Rightarrow> Action" where
  "Maybe skipper next_action st =
     (case Skip skipper of
        None \<Rightarrow> next_action st
      | Some sk \<Rightarrow>
          if sk (ctx st) then (None, st\<lparr>events := events st @ [Skipped (String skipper)]\<rparr>)
          else next_action st)"

text \<open>
  Modelled from the spec: \<open>errhandler.Memo\<close> is missing from the sources. "An ordered
  collection of non-fatal stage failures"; \<open>Memorize\<close> appends, \<open>Error\<close> is success
  for the empty memo and otherwise "a combined error joining all memorized failures".
\<close>

type_synonym Memo = "error list"

definition Memorize :: "Memo \<Rightarrow> error \<Rightarrow> Memo" where
  "Memorize memo err = memo @ [err]"

definition Memo_Error :: "Memo \<Rightarrow> error option" where
  "Memo_Error memo = (if memo = [] then None else Some (MultiError memo))"

text \<open>
  The condition of line 89:
  \<open>ig, ok := publisher.(Continuable); ok && ig.ContinueOnError() && !ctx.FailFast\<close>.
\<close>

definition continues :: "Publisher \<Rightarrow> Context \<Rightarrow> bool" where
  "continues publisher c =
     ((case ContinueOnError publisher of None \<Rightarrow> False | Some b \<Rightarrow> b) \<and> \<not> FailFast c)"

text \<open>
  The \<open>for\<close> loop of \<open>Pipe.Run\<close>. \<open>Inl\<close> is the early \<open>return\<close> of line 93 with the
  state at that moment; \<open>Inr\<close> is the loop running off the end of the list, with the
  memo it has filled.
\<close>

fun Run_loop ::
  "(error \<Rightarrow> error option) \<Rightarrow> Publisher list \<Rightarrow> Memo \<Rightarrow> run_state
     \<Rightarrow> (error \<times> run_state) + (Memo \<times> run_state)" where
  "Run_loop h [] memo st = Inr (memo, st)"
| "Run_loop h (publisher # rest) memo st =
     (case Maybe publisher
             (PadLog (String publisher) (Handle h (Publish_action publisher))) st of
        (None, st') \<Rightarrow> Run_loop h rest memo st'
      | (Some err, st') \<Rightarrow>
          if continues publisher (ctx st')
          then Run_loop h rest (Memorize memo (Errorf (String publisher @ '': '') err)) st'
          else Inl (Errorf (String publisher @ '': failed to publish artifacts: '') err, st'))"

definition Run :: "(error \<Rightarrow> error option) \<Rightarrow> Pipe \<Rightarrow> Context \<Rightarrow> error option \<times> run_state" where
  "Run h p c =
     (case Run_loop h (pipeline p) [] \<lparr>ctx = c, events = []\<rparr> of
        Inl (err, st) \<Rightarrow> (Some err, st)
      | Inr (memo, st) \<Rightarrow> (Memo_Error memo, st))"

section \<open>The Gitea SDK as the client sees it\<close>

text \<open>
  The SDK (\<open>code.gitea.io/sdk/gitea\<close>) is not part of this repository. Every SDK method
  the client calls is a parameter of the model: a function on the state \<open>'s\<close> of the
  remote provider. An SDK method returns \<open>(value, *Response, error)\<close>; the value is there
  exactly when the error is \<open>nil\<close>, and the response may be \<open>nil\<close>.
\<close>

record Response =
  StatusCode :: int

datatype 'a sdk_result =
    Ok 'a "Response option"
  | Failed "Response option" ext_error

fun sdk_resp :: "'a sdk_result \<Rightarrow> Response option" where
  "sdk_resp (Ok v resp) = resp"
| "sdk_resp (Failed resp err) = resp"

fun sdk_err :: "'a sdk_result \<Rightarrow> ext_error option" where
  "sdk_err (Ok v resp) = None"
| "sdk_err (Failed resp err) = Some err"

text \<open>\<open>resp != nil && resp.StatusCode == http.StatusNotFound\<close>\<close>

definition is_not_found :: "Response option \<Rightarrow> bool" where
  "is_not_found resp = (case resp of None \<Rightarrow> False | Some r \<Rightarrow> StatusCode r = 404)"

record User =
  FullName :: string
  Email :: string
  UserName :: string

record RepoCommit =
  Message :: string

record Commit =
  SHA :: string
  RepoCommit :: RepoCommit
  Author :: "User option"

record Compare =
  Commits :: "Commit list"

record Repository =
  DefaultBranch :: string

record ContentsResponse =
  cr_SHA :: string

record Identity =
  id_Name :: string
  id_Email :: string

record FileOptions =
  fo_Message :: string
  BranchName :: string
  fo_Author :: Identity
  Committer :: Identity

record CreateFileOptions =
  cf_FileOptions :: FileOptions
  cf_Content :: string

record UpdateFileOptions =
  uf_FileOptions :: FileOptions
  uf_SHA :: string
  uf_Content :: string

datatype StateType = StateOpen | StateClosed | StateAll

record EditMilestoneOption =
  em_State :: "StateType option"
  em_Title :: string

record Release =
  ID :: int
  TagName :: string
  Target :: string
  Title :: string
  Note :: string
  IsDraft :: bool
  IsPrerelease :: bool

record CreateReleaseOption =
  co_TagName :: string
  co_Target :: string
  co_Title :: string
  co_Note :: string
  co_IsDraft :: bool
  co_IsPrerelease :: bool

record EditReleaseOption =
  eo_TagName :: string
  eo_Target :: string
  eo_Title :: string
  eo_Note :: string
  eo_IsDraft :: "bool option"
  eo_IsPrerelease :: "bool option"

type_synonym os_File = string

text \<open>
  The methods of \<open>*gitea.Client\<close> that \<open>gitea.go\<close> calls. A value the client throws
  away (\<open>_\<close> in the source) has type \<open>unit\<close>. \<open>ListReleases\<close> is always called with the
  empty \<open>gitea.ListReleasesOptions{}\<close>, which the model leaves out.
\<close>

record 's gitea_Client =
  sdk_CompareCommits ::
    "string \<Rightarrow> string \<Rightarrow> string \<Rightarrow> string \<Rightarrow> 's \<Rightarrow> Compare sdk_result \<times> 's"
  sdk_EditMilestoneByName ::
    "string \<Rightarrow> string \<Rightarrow> string \<Rightarrow> EditMilestoneOption \<Rightarrow> 's \<Rightarrow> unit sdk_result \<times> 's"
  sdk_GetRepo :: "string \<Rightarrow> string \<Rightarrow> 's \<Rightarrow> Repository sdk_result \<times> 's"
  sdk_GetContents ::
    "string \<Rightarrow> string \<Rightarrow> string \<Rightarrow> string \<Rightarrow> 's \<Rightarrow> ContentsResponse sdk_result \<times> 's"
  sdk_CreateFile ::
    "string \<Rightarrow> string \<Rightarrow> string \<Rightarrow> CreateFileOptions \<Rightarrow> 's \<Rightarrow> unit sdk_result \<times> 's"
  sdk_UpdateFile ::
    "string \<Rightarrow> string \<Rightarrow> string \<Rightarrow> UpdateFileOptions \<Rightarrow> 's \<Rightarrow> unit sdk_result \<times> 's"
  sdk_ListReleases :: "string \<Rightarrow> string \<Rightarrow> 's \<Rightarrow> Release list sdk_result \<times> 's"
  sdk_CreateRelease ::
    "string \<Rightarrow> string \<Rightarrow> CreateReleaseOption \<Rightarrow> 's \<Rightarrow> Release sdk_result \<times> 's"
  sdk_EditRelease ::
    "string \<Rightarrow> string \<Rightarrow> int \<Rightarrow> EditReleaseOption \<Rightarrow> 's \<Rightarrow> Release sdk_result \<times> 's"
  sdk_CreateReleaseAttachment ::
    "string \<Rightarrow> string \<Rightarrow> int \<Rightarrow> os_File \<Rightarrow> string \<Rightarrow> 's \<Rightarrow> unit sdk_result \<times> 's"

text \<open>
  What a client call can change: the remote provider, and the process-wide log
  (\<open>github.com/caarlos0/log\<close>), of which the level and the message of each entry are kept.
\<close>

datatype level = DebugLevel | InfoLevel | WarnLevel

record 's world =
  remote :: 's
  logged :: "(level \<times> string) list"

definition log_msg :: "level \<Rightarrow> string \<Rightarrow> 's world \<Rightarrow> 's world" where
  "log_msg lvl msg w = w\<lparr>logged := logged w @ [(lvl, msg)]\<rparr>"

definition call :: "('s \<Rightarrow> 'a \<times> 's) \<Rightarrow> 's world \<Rightarrow> 'a \<times> 's world" where
  "call f w = (case f (remote w) of (r, s') \<Rightarrow> (r, w\<lparr>remote := s'\<rparr>))"

section \<open>Collaborators outside the sources\<close>

text \<open>
  Functions \<open>gitea.go\<close> calls whose code is not among the sources: the template engine
  (\<open>tmpl.New(ctx).Apply\<close>) and \<open>getReleaseNotes\<close> of this repository, and \<open>url.Parse\<close>,
  \<open>(*url.URL).String\<close>, the \<open>%q\<close> verb and \<open>base64.StdEncoding.EncodeToString\<close> of the
  standard library. They are parameters. Of a parsed URL the model keeps the path, which
  \<open>getInstanceURL\<close> clears, and the rest of it as one string.
\<close>

record URL =
  Path :: string
  url_rest :: string

record externs =
  tmpl_Apply :: "Context \<Rightarrow> string \<Rightarrow> error + string"
  getReleaseNotes :: "string \<Rightarrow> string \<Rightarrow> ReleaseNotesMode \<Rightarrow> string"
  url_Parse :: "string \<Rightarrow> ext_error + URL"
  url_String :: "URL \<Rightarrow> string"
  fmt_q :: "string \<Rightarrow> string"
  base64_EncodeToString :: "string \<Rightarrow> string"

section \<open>\<open>strconv\<close> and \<open>strings\<close>\<close>

text \<open>\<open>strconv.FormatInt(i, 10)\<close>.\<close>

function FormatUint :: "nat \<Rightarrow> string" where
  "FormatUint n =
     (if n < 10 then [''0123456789'' ! n]
      else FormatUint (n div 10) @ [''0123456789'' ! (n mod 10)])"
  by pat_completeness auto
termination
  by (relation "measure (\<lambda>n. n)") auto

declare FormatUint.simps [simp del]

definition FormatInt :: "int \<Rightarrow> string" where
  "FormatInt i = (if i < 0 then CHR ''-'' # FormatUint (nat (- i)) else FormatUint (nat i))"

text \<open>
  \<open>strconv.ParseInt(s, 10, 64)\<close>: an optional sign, then \<open>strconv.ParseUint\<close> on the rest
  (at least one character, decimal digits only, no underscores in base 10), then the
  range check against \<open>2^63\<close>. \<open>ParseUint\<close> reports a range error as soon as the
  value passes \<open>2^64 - 1\<close>, before it looks at the characters that follow.
\<close>

fun digit_val :: "char \<Rightarrow> nat option" where
  "digit_val c =
     (if c = CHR ''0'' then Some 0 else if c = CHR ''1'' then Some 1
      else if c = CHR ''2'' then Some 2 else if c = CHR ''3'' then Some 3
      else if c = CHR ''4'' then Some 4 else if c = CHR ''5'' then Some 5
      else if c = CHR ''6'' then Some 6 else if c = CHR ''7'' then Some 7
      else if c = CHR ''8'' then Some 8 else if c = CHR ''9'' then Some 9
      else None)"

fun ParseUint_loop :: "string \<Rightarrow> nat \<Rightarrow> num_err + nat" where
  "ParseUint_loop [] n = Inr n"
| "ParseUint_loop (c # s) n =
     (case digit_val c of
        None \<Rightarrow> Inl ErrSyntax
      | Some d \<Rightarrow>
          if n \<ge> (2 ^ 64 - 1) div 10 + 1 then Inl ErrRange
          else if n * 10 + d > 2 ^ 64 - 1 then Inl ErrRange
          else ParseUint_loop s (n * 10 + d))"

definition ParseUint :: "string \<Rightarrow> num_err + nat" where
  "ParseUint s = (if s = [] then Inl ErrSyntax else ParseUint_loop s 0)"

definition ParseInt :: "string \<Rightarrow> error + int" where
  "ParseInt s0 =
     (if s0 = [] then Inl (NumError ''ParseInt'' s0 ErrSyntax)
      else
        let neg = (hd s0 = CHR ''-'');
            s = (if hd s0 = CHR ''+'' \<or> hd s0 = CHR ''-'' then tl s0 else s0)
        in case ParseUint s of
             Inl ErrSyntax \<Rightarrow> Inl (NumError ''ParseInt'' s0 ErrSyntax)
           | Inl ErrRange \<Rightarrow> Inl (NumError ''ParseInt'' s0 ErrRange)
           | Inr un \<Rightarrow>
               if \<not> neg \<and> un \<ge> 2 ^ 63 then Inl (NumError ''ParseInt'' s0 ErrRange)
               else if neg \<and> un > 2 ^ 63 then Inl (NumError ''ParseInt'' s0 ErrRange)
               else Inr (if neg then - int un else int un))"

text \<open>
  \<open>strings.Split(s, sep)\<close> for a separator of one byte, as \<open>Changelog\<close> uses it. The
  result is never empty, so the index \<open>[0]\<close> of the source is always in range.
\<close>

fun strings_Split :: "string \<Rightarrow> char \<Rightarrow> string list" where
  "strings_Split [] sep = [[]]"
| "strings_Split (c # s) sep =
     (if c = sep then [] # strings_Split s sep
      else (case strings_Split s sep of
              [] \<Rightarrow> [[c]]
            | part # parts \<Rightarrow> (c # part) # parts))"

section \<open>The Gitea client (\<open>internal/client/gitea.go\<close>)\<close>

record Repo =
  Owner :: string
  Name :: string
  Branch :: string

record CommitAuthor =
  ca_Name :: string
  ca_Email :: string

record Artifact =
  art_Name :: string

record ChangelogItem =
  ci_SHA :: string
  ci_Message :: string
  AuthorName :: string
  AuthorEmail :: string
  AuthorUsername :: string

subsection \<open>\<open>getInstanceURL\<close> and \<open>newGitea\<close>\<close>

definition getInstanceURL :: "externs \<Rightarrow> Context \<Rightarrow> error + string" where
  "getInstanceURL x c =
     (case tmpl_Apply x c (API (GiteaURLs (Config c))) of
        Inl err \<Rightarrow> Inl (Errorf ''templating Gitea API URL: '' err)
      | Inr apiURL \<Rightarrow>
          (case url_Parse x apiURL of
             Inl err \<Rightarrow> Inl (External err)
           | Inr u \<Rightarrow>
               let rawurl = url_String x (u\<lparr>Path := ''''\<rparr>)
               in if rawurl = ''''
                  then Inl (New (''invalid URL: '' @ fmt_q x (API (GiteaURLs (Config c)))))
                  else Inr rawurl))"

text \<open>
  The \<open>http.Client\<close> the constructor builds (of its transport, the TLS setting is kept),
  and the SDK's client options the source uses. \<open>gitea.NewClient\<close> and the application
  of an option to a client belong to the SDK: they are parameters, for any type \<open>'cl\<close> of
  SDK clients. A context is a value in the model, never \<open>nil\<close>, so the guard of line 69
  holds and \<open>gitea.SetContext(ctx)\<close> is always applied.
\<close>

record http_Client =
  InsecureSkipVerify :: bool

datatype ClientOption = SetHTTPClient http_Client | SetToken string | SetContext Context

record 'cl gitea_sdk =
  NewClient :: "string \<Rightarrow> ClientOption list \<Rightarrow> ext_error + 'cl"
  apply_option :: "ClientOption \<Rightarrow> 'cl \<Rightarrow> ext_error + 'cl"

text \<open>Lines 51 to 64: the option list handed to \<open>gitea.NewClient\<close>.\<close>

definition newGitea_options :: "Context \<Rightarrow> string \<Rightarrow> ClientOption list" where
  "newGitea_options c token =
     (let httpClient = \<lparr>InsecureSkipVerify = SkipTLSVerify (GiteaURLs (Config c))\<rparr>;
          options = [SetHTTPClient httpClient]
      in if token \<noteq> ''giteatoken'' then options @ [SetToken token] else options)"

definition newGitea :: "externs \<Rightarrow> 'cl gitea_sdk \<Rightarrow> Context \<Rightarrow> string \<Rightarrow> error + 'cl" where
  "newGitea x sdk c token =
     (case getInstanceURL x c of
        Inl err \<Rightarrow> Inl err
      | Inr instanceURL \<Rightarrow>
          (case NewClient sdk instanceURL (newGitea_options c token) of
             Inl err \<Rightarrow> Inl (External err)
           | Inr client \<Rightarrow>
               (case apply_option sdk (SetContext c) client of
                  Inl err \<Rightarrow> Inl (External err)
                | Inr client' \<Rightarrow> Inr client')))"

subsection \<open>\<open>Changelog\<close>\<close>

text \<open>The body of the \<open>for\<close> loop, and the loop with its \<open>append\<close>.\<close>

definition Changelog_item :: "Commit \<Rightarrow> ChangelogItem" where
  "Changelog_item commit =
     (let item = \<lparr>ci_SHA = SHA commit,
                  ci_Message = hd (strings_Split (Message (RepoCommit commit)) (CHR 0x0A)),
                  AuthorName = '''', AuthorEmail = '''', AuthorUsername = ''''\<rparr>
      in case Author commit of
           None \<Rightarrow> item
         | Some author \<Rightarrow>
             item\<lparr>AuthorName := FullName author, AuthorEmail := Email author,
                  AuthorUsername := UserName author\<rparr>)"

fun Changelog_loop :: "Commit list \<Rightarrow> ChangelogItem list \<Rightarrow> ChangelogItem list" where
  "Changelog_loop [] log = log"
| "Changelog_loop (commit # rest) log = Changelog_loop rest (log @ [Changelog_item commit])"

definition Changelog ::
  "'s gitea_Client \<Rightarrow> Context \<Rightarrow> Repo \<Rightarrow> string \<Rightarrow> string \<Rightarrow> 's world
     \<Rightarrow> (error + ChangelogItem list) \<times> 's world" where
  "Changelog cl c repo prev current w =
     (case call (sdk_CompareCommits cl (Owner repo) (Name repo) prev current) w of
        (Failed resp err, w') \<Rightarrow> (Inl (External err), w')
      | (Ok result resp, w') \<Rightarrow> (Inr (Changelog_loop (Commits result) []), w'))"

subsection \<open>\<open>CloseMilestone\<close>\<close>

definition CloseMilestone ::
  "'s gitea_Client \<Rightarrow> Context \<Rightarrow> Repo \<Rightarrow> string \<Rightarrow> 's world \<Rightarrow> error option \<times> 's world" where
  "CloseMilestone cl c repo title w =
     (let closedState = StateClosed;
          opts = \<lparr>em_State = Some closedState, em_Title = title\<rparr>
      in case call (sdk_EditMilestoneByName cl (Owner repo) (Name repo) title opts) w of
           (r, w') \<Rightarrow>
             if is_not_found (sdk_resp r) then (Some (ErrNoMilestoneFound title), w')
             else (map_option External (sdk_err r), w'))"

subsection \<open>\<open>getDefaultBranch\<close> and \<open>CreateFile\<close>\<close>

text \<open>
  \<open>getDefaultBranch\<close> returns the Go pair \<open>(string, error)\<close>: on an error the string is
  \<open>""\<close>, and the caller assigns both.
\<close>

definition getDefaultBranch ::
  "'s gitea_Client \<Rightarrow> Context \<Rightarrow> Repo \<Rightarrow> 's world \<Rightarrow> (string \<times> error option) \<times> 's world" where
  "getDefaultBranch cl c repo w =
     (case call (sdk_GetRepo cl (Owner repo) (Name repo)) w of
        (Failed res err, w') \<Rightarrow>
          (('''', Some (External err)), log_msg WarnLevel ''error checking for default branch'' w')
      | (Ok p res, w') \<Rightarrow> ((DefaultBranch p, None), w'))"

text \<open>Lines 140 to 155 of \<open>CreateFile\<close>: the value of \<open>branch\<close>.\<close>

definition CreateFile_branch ::
  "'s gitea_Client \<Rightarrow> Context \<Rightarrow> Repo \<Rightarrow> 's world \<Rightarrow> string \<times> 's world" where
  "CreateFile_branch cl c repo w =
     (if Branch repo \<noteq> '''' then (Branch repo, w)
      else
        (case getDefaultBranch cl c repo w of
           ((branch, Some err), w') \<Rightarrow>
             (branch, log_msg WarnLevel ''error checking for default branch, using master'' w')
         | ((branch, None), w') \<Rightarrow> (branch, w')))"

definition CreateFile ::
  "externs \<Rightarrow> 's gitea_Client \<Rightarrow> Context \<Rightarrow> CommitAuthor \<Rightarrow> Repo \<Rightarrow> string \<Rightarrow> string \<Rightarrow> string
     \<Rightarrow> 's world \<Rightarrow> error option \<times> 's world" where
  "CreateFile x cl c commitAuthor repo content path message w =
     (case CreateFile_branch cl c repo w of
        (branch, w1) \<Rightarrow>
          let fileOptions =
                \<lparr>fo_Message = message, BranchName = branch,
                 fo_Author = \<lparr>id_Name = ca_Name commitAuthor, id_Email = ca_Email commitAuthor\<rparr>,
                 Committer = \<lparr>id_Name = ca_Name commitAuthor, id_Email = ca_Email commitAuthor\<rparr>\<rparr>;
              w2 = log_msg InfoLevel ''pushing'' w1
          in case call (sdk_GetContents cl (Owner repo) (Name repo) branch path) w2 of
               (Failed resp err, w3) \<Rightarrow>
                 if resp = None \<or> \<not> is_not_found resp then (Some (External err), w3)
                 else
                   (case call (sdk_CreateFile cl (Owner repo) (Name repo) path
                                 \<lparr>cf_FileOptions = fileOptions,
                                  cf_Content = base64_EncodeToString x content\<rparr>) w3 of
                      (r, w4) \<Rightarrow> (map_option External (sdk_err r), w4))
             | (Ok currentFile resp, w3) \<Rightarrow>
                 (case call (sdk_UpdateFile cl (Owner repo) (Name repo) path
                               \<lparr>uf_FileOptions = fileOptions, uf_SHA = cr_SHA currentFile,
                                uf_Content = base64_EncodeToString x content\<rparr>) w3 of
                    (r, w4) \<Rightarrow> (map_option External (sdk_err r), w4)))"

subsection \<open>Releases\<close>

definition createRelease ::
  "'s gitea_Client \<Rightarrow> Context \<Rightarrow> string \<Rightarrow> string \<Rightarrow> 's world \<Rightarrow> (error + Release) \<times> 's world" where
  "createRelease cl c title body w =
     (let releaseConfig = Release (Config c);
          owner = cfg_Owner (Gitea releaseConfig);
          repoName = cfg_Name (Gitea releaseConfig);
          tag = CurrentTag (Git c);
          opts = \<lparr>co_TagName = tag, co_Target = Commit (Git c), co_Title = title,
                  co_Note = body, co_IsDraft = Draft releaseConfig,
                  co_IsPrerelease = PreRelease c\<rparr>
      in case call (sdk_CreateRelease cl owner repoName opts) w of
           (Failed resp err, w') \<Rightarrow>
             (Inl (External err), log_msg DebugLevel ''error creating Gitea release'' w')
         | (Ok release resp, w') \<Rightarrow>
             (Inr release, log_msg InfoLevel ''Gitea release created'' w'))"

text \<open>The scan of \<open>getExistingRelease\<close>: the first release whose tag is the given string.\<close>

fun getExistingRelease_loop :: "Release list \<Rightarrow> string \<Rightarrow> Release option" where
  "getExistingRelease_loop [] tagName = None"
| "getExistingRelease_loop (release # releases) tagName =
     (if TagName release = tagName then Some release
      else getExistingRelease_loop releases tagName)"

definition getExistingRelease ::
  "'s gitea_Client \<Rightarrow> string \<Rightarrow> string \<Rightarrow> string \<Rightarrow> 's world
     \<Rightarrow> (error + Release option) \<times> 's world" where
  "getExistingRelease cl owner repoName tagName w =
     (case call (sdk_ListReleases cl owner repoName) w of
        (Failed resp err, w') \<Rightarrow> (Inl (External err), w')
      | (Ok releases resp, w') \<Rightarrow> (Inr (getExistingRelease_loop releases tagName), w'))"

definition updateRelease ::
  "'s gitea_Client \<Rightarrow> Context \<Rightarrow> string \<Rightarrow> string \<Rightarrow> int \<Rightarrow> 's world
     \<Rightarrow> (error + Release) \<times> 's world" where
  "updateRelease cl c title body rid w =
     (let releaseConfig = Release (Config c);
          owner = cfg_Owner (Gitea releaseConfig);
          repoName = cfg_Name (Gitea releaseConfig);
          tag = CurrentTag (Git c);
          opts = \<lparr>eo_TagName = tag, eo_Target = Commit (Git c), eo_Title = title,
                  eo_Note = body, eo_IsDraft = Some (Draft releaseConfig),
                  eo_IsPrerelease = Some (PreRelease c)\<rparr>
      in case call (sdk_EditRelease cl owner repoName rid opts) w of
           (Failed resp err, w') \<Rightarrow>
             (Inl (External err), log_msg DebugLevel ''error updating Gitea release'' w')
         | (Ok release resp, w') \<Rightarrow>
             (Inr release, log_msg InfoLevel ''Gitea release updated'' w'))"

definition CreateRelease ::
  "externs \<Rightarrow> 's gitea_Client \<Rightarrow> Context \<Rightarrow> string \<Rightarrow> 's world \<Rightarrow> (error + string) \<times> 's world" where
  "CreateRelease x cl c body w =
     (let releaseConfig = Release (Config c)
      in case tmpl_Apply x c (NameTemplate releaseConfig) of
           Inl err \<Rightarrow> (Inl err, w)
         | Inr title \<Rightarrow>
             (case getExistingRelease cl (cfg_Owner (Gitea releaseConfig))
                     (cfg_Name (Gitea releaseConfig)) (CurrentTag (Git c)) w of
                (Inl err, w1) \<Rightarrow> (Inl err, w1)
              | (Inr (Some release), w1) \<Rightarrow>
                  (let body' = getReleaseNotes x (Note release) body
                                 (ReleaseNotesMode (Release (Config c)))
                   in case updateRelease cl c title body' (ID release) w1 of
                        (Inl err, w2) \<Rightarrow> (Inl err, w2)
                      | (Inr release', w2) \<Rightarrow> (Inr (FormatInt (ID release')), w2))
              | (Inr None, w1) \<Rightarrow>
                  (case createRelease cl c title body w1 of
                     (Inl err, w2) \<Rightarrow> (Inl err, w2)
                   | (Inr release', w2) \<Rightarrow> (Inr (FormatInt (ID release')), w2))))"

definition PublishRelease ::
  "'s gitea_Client \<Rightarrow> Context \<Rightarrow> string \<Rightarrow> 's world \<Rightarrow> error option \<times> 's world" where
  "PublishRelease cl c releaseID w = (None, w)"

subsection \<open>\<open>Upload\<close>\<close>

definition Upload ::
  "'s gitea_Client \<Rightarrow> Context \<Rightarrow> string \<Rightarrow> Artifact \<Rightarrow> os_File \<Rightarrow> 's world
     \<Rightarrow> error option \<times> 's world" where
  "Upload cl c releaseID artifact file w =
     (case ParseInt releaseID of
        Inl err \<Rightarrow> (Some err, w)
      | Inr giteaReleaseID \<Rightarrow>
          (let releaseConfig = Release (Config c);
               owner = cfg_Owner (Gitea releaseConfig);
               repoName = cfg_Name (Gitea releaseConfig)
           in case call (sdk_CreateReleaseAttachment cl owner repoName giteaReleaseID file
                           (art_Name artifact)) w of
                (Failed resp err, w') \<Rightarrow> (Some (RetriableError (External err)), w')
              | (Ok v resp, w') \<Rightarrow> (None, w')))"

section \<open>Providers for the examples\<close>

text \<open>
  The theorems below hold for every provider. The examples run the client against two
  small providers: one that answers every method with a fixed result and writes down each
  call it receives, and one that keeps releases in a list.
\<close>

datatype sdk_call =
    CompareCommitsCall string string string string
  | EditMilestoneByNameCall string string string EditMilestoneOption
  | GetRepoCall string string
  | GetContentsCall string string string string
  | CreateFileCall string string string CreateFileOptions
  | UpdateFileCall string string string UpdateFileOptions
  | ListReleasesCall string string
  | CreateReleaseCall string string CreateReleaseOption
  | EditReleaseCall string string int EditReleaseOption
  | CreateReleaseAttachmentCall string string int os_File string

record responses =
  on_CompareCommits :: "Compare sdk_result"
  on_EditMilestoneByName :: "unit sdk_result"
  on_GetRepo :: "Repository sdk_result"
  on_GetContents :: "ContentsResponse sdk_result"
  on_CreateFile :: "unit sdk_result"
  on_UpdateFile :: "unit sdk_result"
  on_ListReleases :: "Release list sdk_result"
  on_CreateRelease :: "Release sdk_result"
  on_EditRelease :: "Release sdk_result"
  on_CreateReleaseAttachment :: "unit sdk_result"

definition recorder :: "responses \<Rightarrow> sdk_call list gitea_Client" where
  "recorder rs =
     \<lparr>sdk_CompareCommits =
        (\<lambda>ownr repo prev cur s. (on_CompareCommits rs, s @ [CompareCommitsCall ownr repo prev cur])),
      sdk_EditMilestoneByName =
        (\<lambda>ownr repo nm opt s.
           (on_EditMilestoneByName rs, s @ [EditMilestoneByNameCall ownr repo nm opt])),
      sdk_GetRepo = (\<lambda>ownr repo s. (on_GetRepo rs, s @ [GetRepoCall ownr repo])),
      sdk_GetContents =
        (\<lambda>ownr repo ref path s. (on_GetContents rs, s @ [GetContentsCall ownr repo ref path])),
      sdk_CreateFile =
        (\<lambda>ownr repo path opt s. (on_CreateFile rs, s @ [CreateFileCall ownr repo path opt])),
      sdk_UpdateFile =
        (\<lambda>ownr repo path opt s. (on_UpdateFile rs, s @ [UpdateFileCall ownr repo path opt])),
      sdk_ListReleases = (\<lambda>ownr repo s. (on_ListReleases rs, s @ [ListReleasesCall ownr repo])),
      sdk_CreateRelease =
        (\<lambda>ownr repo opt s. (on_CreateRelease rs, s @ [CreateReleaseCall ownr repo opt])),
      sdk_EditRelease =
        (\<lambda>ownr repo rid opt s. (on_EditRelease rs, s @ [EditReleaseCall ownr repo rid opt])),
      sdk_CreateReleaseAttachment =
        (\<lambda>ownr repo rid file nm s.
           (on_CreateReleaseAttachment rs, s @ [CreateReleaseAttachmentCall ownr repo rid file nm]))\<rparr>"

definition http :: "int \<Rightarrow> Response option" where
  "http code = Some \<lparr>StatusCode = code\<rparr>"

text \<open>A provider on which every method succeeds.\<close>

definition all_ok :: responses where
  "all_ok =
     \<lparr>on_CompareCommits = Ok \<lparr>Commits = []\<rparr> (http 200),
      on_EditMilestoneByName = Ok () (http 200),
      on_GetRepo = Ok \<lparr>DefaultBranch = ''main''\<rparr> (http 200),
      on_GetContents = Ok \<lparr>cr_SHA = ''9fceb02''\<rparr> (http 200),
      on_CreateFile = Ok () (http 201),
      on_UpdateFile = Ok () (http 200),
      on_ListReleases = Ok [] (http 200),
      on_CreateRelease =
        Ok \<lparr>ID = 7, TagName = ''v1.0.0'', Target = ''0123abc'', Title = ''v1.0.0'', Note = '''',
            IsDraft = False, IsPrerelease = False\<rparr> (http 201),
      on_EditRelease =
        Ok \<lparr>ID = 7, TagName = ''v1.0.0'', Target = ''0123abc'', Title = ''v1.0.0'', Note = '''',
            IsDraft = False, IsPrerelease = False\<rparr> (http 200),
      on_CreateReleaseAttachment = Ok () (http 201)\<rparr>"

text \<open>
  A provider that keeps the releases of one repository in a list: listing returns the
  whole list, creating adds a release with an identifier larger than every one in use,
  editing replaces the release with the given identifier. Its other methods fail.
\<close>

definition fresh_ID :: "Release list \<Rightarrow> int" where
  "fresh_ID rs = fold max (map ID rs) 0 + 1"

definition edited :: "Release \<Rightarrow> EditReleaseOption \<Rightarrow> Release" where
  "edited r opt =
     r\<lparr>TagName := eo_TagName opt, Target := eo_Target opt, Title := eo_Title opt,
       Note := eo_Note opt,
       IsDraft := (case eo_IsDraft opt of None \<Rightarrow> IsDraft r | Some b \<Rightarrow> b),
       IsPrerelease := (case eo_IsPrerelease opt of None \<Rightarrow> IsPrerelease r | Some b \<Rightarrow> b)\<rparr>"

definition release_list :: "Release list gitea_Client" where
  "release_list =
     \<lparr>sdk_CompareCommits = (\<lambda>ownr repo prev cur s. (Failed None (ExtError ''unsupported''), s)),
      sdk_EditMilestoneByName = (\<lambda>ownr repo nm opt s. (Failed None (ExtError ''unsupported''), s)),
      sdk_GetRepo = (\<lambda>ownr repo s. (Failed None (ExtError ''unsupported''), s)),
      sdk_GetContents = (\<lambda>ownr repo ref path s. (Failed None (ExtError ''unsupported''), s)),
      sdk_CreateFile = (\<lambda>ownr repo path opt s. (Failed None (ExtError ''unsupported''), s)),
      sdk_UpdateFile = (\<lambda>ownr repo path opt s. (Failed None (ExtError ''unsupported''), s)),
      sdk_ListReleases = (\<lambda>ownr repo s. (Ok s (http 200), s)),
      sdk_CreateRelease =
        (\<lambda>ownr repo opt s.
           let r = \<lparr>ID = fresh_ID s, TagName = co_TagName opt, Target = co_Target opt,
                    Title = co_Title opt, Note = co_Note opt, IsDraft = co_IsDraft opt,
                    IsPrerelease = co_IsPrerelease opt\<rparr>
           in (Ok r (http 201), r # s)),
      sdk_EditRelease =
        (\<lambda>ownr repo rid opt s.
           case find (\<lambda>r. ID r = rid) s of
             None \<Rightarrow> (Failed (http 404) (ExtError ''release not found''), s)
           | Some r \<Rightarrow>
               (Ok (edited r opt) (http 200),
                map (\<lambda>r'. if ID r' = rid then edited r opt else r') s)),
      sdk_CreateReleaseAttachment =
        (\<lambda>ownr repo rid file nm s. (Failed None (ExtError ''unsupported''), s))\<rparr>"

section \<open>What the release methods of a provider must do\<close>

text \<open>
  The provider is outside the repository, so a statement about two calls in a row needs
  to say what the provider does between them. \<open>release_store cl owner repoName rels\<close>:
  for this repository, \<open>rels\<close> reads the stored releases off the provider's state, and
  \<^item> \<open>ListReleases\<close> changes no release and, when it succeeds, returns all of them;
  \<^item> \<open>CreateRelease\<close>, when it succeeds, adds the release it returns, which has the
    tag asked for and an identifier no stored release has; when it fails, it changes none;
  \<^item> \<open>EditRelease\<close>, when it succeeds, returns a release with the identifier and tag
    asked for and puts it in the place of the stored releases with that identifier; when
    it fails, it changes none.
  The order of the stored releases is left open.
\<close>

definition release_store ::
  "'s gitea_Client \<Rightarrow> string \<Rightarrow> string \<Rightarrow> ('s \<Rightarrow> Release list) \<Rightarrow> bool" where
  "release_store cl owner repoName rels =
     ((\<forall>s r s'. sdk_ListReleases cl owner repoName s = (r, s') \<longrightarrow>
          mset (rels s') = mset (rels s) \<and>
          (\<forall>rs resp. r = Ok rs resp \<longrightarrow> rs = rels s))
      \<and> (\<forall>opt s r s'. sdk_CreateRelease cl owner repoName opt s = (r, s') \<longrightarrow>
          (case r of
             Ok rel resp \<Rightarrow>
               mset (rels s') = add_mset rel (mset (rels s)) \<and> TagName rel = co_TagName opt \<and>
               ID rel \<notin> ID ` set (rels s)
           | Failed resp err \<Rightarrow> mset (rels s') = mset (rels s)))
      \<and> (\<forall>rid opt s r s'. sdk_EditRelease cl owner repoName rid opt s = (r, s') \<longrightarrow>
          (case r of
             Ok rel resp \<Rightarrow>
               ID rel = rid \<and> TagName rel = eo_TagName opt \<and>
               mset (rels s') = image_mset (\<lambda>r'. if ID r' = rid then rel else r') (mset (rels s))
           | Failed resp err \<Rightarrow> mset (rels s') = mset (rels s))))"

section \<open>Values for the examples\<close>

definition ctx0 :: Context where
  "ctx0 =
     \<lparr>Config =
        \<lparr>GiteaURLs = \<lparr>API = ''https://gitea.example/api/v1'', Download = ''https://gitea.example'',
                       SkipTLSVerify = False\<rparr>,
         Release = \<lparr>Gitea = \<lparr>cfg_Owner = ''owner'', cfg_Name = ''repo''\<rparr>, Draft = False,
                     NameTemplate = ''{{ .Tag }}'',
                     ReleaseNotesMode = ReleaseNotesModeKeepExisting\<rparr>\<rparr>,
      Git = \<lparr>CurrentTag = ''v1.0.0'', Commit = ''0123abc''\<rparr>,
      PreRelease = False, FailFast = False\<rparr>"

text \<open>
  Collaborators for the examples: a template engine that renders every template as the
  current tag, release notes that keep the stored body when there is one, a URL parser
  that fails on the empty string only, and an encoder that leaves the content alone.
\<close>

definition x0 :: externs where
  "x0 =
     \<lparr>tmpl_Apply = (\<lambda>c t. Inr (CurrentTag (Git c))),
      getReleaseNotes = (\<lambda>existing current mode. if existing \<noteq> '''' then existing else current),
      url_Parse = (\<lambda>s. if s = '''' then Inl (ExtError ''empty url'')
                       else Inr \<lparr>Path = ''/api/v1'', url_rest = ''https://gitea.example''\<rparr>),
      url_String = (\<lambda>u. url_rest u @ Path u),
      fmt_q = (\<lambda>s. s),
      base64_EncodeToString = (\<lambda>s. s)\<rparr>"

definition repo0 :: Repo where
  "repo0 = \<lparr>Owner = ''owner'', Name = ''tap'', Branch = ''''\<rparr>"

definition author0 :: CommitAuthor where
  "author0 = \<lparr>ca_Name = ''bot'', ca_Email = ''bot@example.com''\<rparr>"

definition w0 :: "sdk_call list world" where
  "w0 = \<lparr>remote = [], logged = []\<rparr>"

definition stageA :: Publisher where
  "stageA = \<lparr>String = ''A'', Publish = (\<lambda>c. (Some (New ''a failed''), c)), Skip = None,
             ContinueOnError = Some True\<rparr>"

definition stageB :: Publisher where
  "stageB = \<lparr>String = ''B'', Publish = (\<lambda>c. (Some (New ''b failed''), c)), Skip = None,
             ContinueOnError = None\<rparr>"

definition stageC :: Publisher where
  "stageC = \<lparr>String = ''C'', Publish = (\<lambda>c. (None, c)), Skip = None,
             ContinueOnError = None\<rparr>"

definition stageS :: Publisher where
  "stageS = \<lparr>String = ''S'', Publish = (\<lambda>c. (Some (New ''s failed''), c)),
             Skip = Some (\<lambda>c. True), ContinueOnError = None\<rparr>"

text \<open>
  An SDK for the examples of the constructor: a client is its URL and its access token;
  \<open>NewClient\<close> starts with no token and applies the options in order.
\<close>

record sdk_client =
  client_url :: string
  accessToken :: string
  client_insecure :: bool

fun set_option :: "ClientOption \<Rightarrow> sdk_client \<Rightarrow> sdk_client" where
  "set_option (SetHTTPClient h) cl = cl\<lparr>client_insecure := InsecureSkipVerify h\<rparr>"
| "set_option (SetToken t) cl = cl\<lparr>accessToken := t\<rparr>"
| "set_option (SetContext c) cl = cl"

definition sdk0 :: "sdk_client gitea_sdk" where
  "sdk0 =
     \<lparr>NewClient =
        (\<lambda>u opts. Inr (fold set_option opts
                         \<lparr>client_url = u, accessToken = '''', client_insecure = False\<rparr>)),
      apply_option = (\<lambda>opt cl. Inr (set_option opt cl))\<rparr>"

section \<open>Properties of the pipeline runner\<close>

text \<open>
  Running a list of stages that is the concatenation of two lists: the first part runs,
  and the second part runs from the memo and the state the first part left, unless the
  first part returned early. The two lemmas after it say which event one wrapped call of a
  publisher writes.
\<close>

lemma Run_loop_append:
  "Run_loop h (xs @ ys) memo st =
     (case Run_loop h xs memo st of
        Inl f \<Rightarrow> Inl f
      | Inr (memo', st') \<Rightarrow> Run_loop h ys memo' st')"
  by (induction xs arbitrary: memo st) (auto split: prod.splits option.splits)

lemma wrapped_error_invoked:
  assumes "Maybe p (PadLog (String p) (Handle h (Publish_action p))) st = (Some err, st')"
  shows "events st' = events st @ [Invoked (String p)]"
  using assms
  by (auto simp: Maybe_def PadLog_def Handle_def Publish_action_def
           split: option.splits if_splits prod.splits)

lemma wrapped_event_names:
  assumes "Maybe p (PadLog (String p) (Handle h (Publish_action p))) st = (r, st')"
  shows "map event_name (events st') = map event_name (events st) @ [String p]"
  using assms
  by (auto simp: Maybe_def PadLog_def Handle_def Publish_action_def
           split: option.splits if_splits prod.splits)

lemma Run_loop_Inr:
  "Run_loop h ps memo st = Inr (memo', st') \<Longrightarrow>
     map event_name (events st') = map event_name (events st) @ map String ps \<and>
     (\<exists>fs. memo' = memo @ map (\<lambda>(q, e). Errorf (String q @ '': '') e) fs \<and>
           subseq (map fst fs) ps \<and> list_all (\<lambda>(q, e). ContinueOnError q = Some True) fs)"
proof (induction ps arbitrary: memo st)
  case Nil
  then show ?case by (auto intro: exI[of _ "[]"])
next
  case (Cons p ps)
  obtain r st1 where w: "Maybe p (PadLog (String p) (Handle h (Publish_action p))) st = (r, st1)"
    by (cases "Maybe p (PadLog (String p) (Handle h (Publish_action p))) st") auto
  note ev = wrapped_event_names[OF w]
  show ?case
  proof (cases r)
    case None
    with w Cons.prems have "Run_loop h ps memo st1 = Inr (memo', st')" by simp
    from Cons.IH[OF this] obtain fs where
      e: "map event_name (events st') = map event_name (events st1) @ map String ps"
      and m: "memo' = memo @ map (\<lambda>(q, e). Errorf (String q @ '': '') e) fs"
      and s: "subseq (map fst fs) ps"
      and a: "list_all (\<lambda>(q, e). ContinueOnError q = Some True) fs" by blast
    from s have "subseq (map fst fs) (p # ps)" by (rule list_emb.list_emb_Cons)
    with e m a ev show ?thesis by auto
  next
    case (Some err)
    with w Cons.prems have c: "continues p (ctx st1)"
      and "Run_loop h ps (Memorize memo (Errorf (String p @ '': '') err)) st1 = Inr (memo', st')"
      by (auto split: if_splits)
    from Cons.IH[OF this(2)] obtain fs where
      e: "map event_name (events st') = map event_name (events st1) @ map String ps"
      and m: "memo' = Memorize memo (Errorf (String p @ '': '') err) @ map (\<lambda>(q, e). Errorf (String q @ '': '') e) fs"
      and s: "subseq (map fst fs) ps"
      and a: "list_all (\<lambda>(q, e). ContinueOnError q = Some True) fs" by blast
    let ?fs = "(p, err) # fs"
    from c have "ContinueOnError p = Some True"
      by (auto simp: continues_def split: option.splits)
    with a have "list_all (\<lambda>(q, e). ContinueOnError q = Some True) ?fs" by simp
    moreover from s have "subseq (map fst ?fs) (p # ps)" by simp
    moreover from m have "memo' = memo @ map (\<lambda>(q, e). Errorf (String q @ '': '') e) ?fs"
      by (simp add: Memorize_def)
    ultimately show ?thesis using e ev by (intro conjI exI[of _ ?fs]) auto
  qed
qed

text \<open>
  What the loop does with an error that reaches it, for any classification \<open>h\<close>: the
  stages \<open>pre\<close> ran without an early return, and the wrapped call of \<open>p\<close> (line 82 to
  88) returned the error \<open>err\<close>.
\<close>

lemma Run_wrapped_error:
  assumes reach: "Run_loop h pre [] \<lparr>ctx = c, events = []\<rparr> = Inr (memo, st)"
      and fail: "Maybe p (PadLog (String p) (Handle h (Publish_action p))) st = (Some err, st')"
  shows "(ContinueOnError p = Some True \<and> \<not> FailFast (ctx st') \<longrightarrow>
            Run h \<lparr>pipeline = pre @ p # post\<rparr> c =
              (case Run_loop h post (memo @ [Errorf (String p @ '': '') err]) st' of
                 Inl (e, s) \<Rightarrow> (Some e, s)
               | Inr (m, s) \<Rightarrow> (Memo_Error m, s)))
       \<and> (\<not> (ContinueOnError p = Some True \<and> \<not> FailFast (ctx st')) \<longrightarrow>
            Run h \<lparr>pipeline = pre @ p # post\<rparr> c =
              (Some (Errorf (String p @ '': failed to publish artifacts: '') err), st')
            \<and> events st' = events st @ [Invoked (String p)])"
proof -
  have c: "continues p (ctx st') = (ContinueOnError p = Some True \<and> \<not> FailFast (ctx st'))"
    by (auto simp: continues_def split: option.splits)
  have "Run_loop h (pre @ p # post) [] \<lparr>ctx = c, events = []\<rparr> = Run_loop h (p # post) memo st"
    using reach by (simp add: Run_loop_append)
  then show ?thesis
    using fail c wrapped_error_invoked[OF fail] by (simp add: Run_def Memorize_def)
qed

text \<open>
  A stage that is not skipped and whose \<open>Publish\<close> returns an error: under the wrapper
  that hands every error on, the wrapped call returns that error, and its one event is the
  call of the stage.
\<close>

lemma wrapped_Publish_error:
  assumes not_skipped: "case Skip p of None \<Rightarrow> True | Some sk \<Rightarrow> \<not> sk (ctx st)"
      and fail: "Publish p (ctx st) = (Some err, c')"
  shows "Maybe p (PadLog (String p) (Handle Some (Publish_action p))) st
           = (Some err, \<lparr>ctx = c', events = events st @ [Invoked (String p)]\<rparr>)"
proof (cases "Skip p")
  case None
  with fail show ?thesis
    by (simp add: Maybe_def PadLog_def Handle_def Publish_action_def)
next
  case (Some sk)
  with not_skipped fail show ?thesis
    by (simp add: Maybe_def PadLog_def Handle_def Publish_action_def)
qed

text \<open>
  Claim C2. The runner of the spec swallows no error of a stage (spec, section 7), so
  the classification is \<open>Some\<close>, which hands every error on. Take any pipeline
  \<open>pre @ p # post\<close> whose stages \<open>pre\<close> ran without an early return, leaving the memo
  \<open>memo\<close> and the state \<open>st\<close>, and let stage \<open>p\<close> run (it is not skipped) and its
  \<open>Publish\<close> return the error \<open>err\<close> and the context \<open>c'\<close>. If \<open>p\<close> implements
  \<open>Continuable\<close> with \<open>ContinueOnError() = true\<close> and the context is not in fail-fast
  mode, the run goes on with the stages \<open>post\<close> from the memo extended at its end by
  \<open>String p: err\<close>. In every other case (the stage is not \<open>Continuable\<close>, it answers
  \<open>false\<close>, or fail-fast is on) the run returns the error
  \<open>String p: failed to publish artifacts: err\<close> together with the state right after the
  call of \<open>p\<close>, whose last event is that call: no stage of \<open>post\<close> is called or
  skipped.
\<close>

theorem Run_stage_error:
  assumes reach: "Run_loop Some pre [] \<lparr>ctx = c, events = []\<rparr> = Inr (memo, st)"
      and not_skipped: "case Skip p of None \<Rightarrow> True | Some sk \<Rightarrow> \<not> sk (ctx st)"
      and fail: "Publish p (ctx st) = (Some err, c')"
  shows "(ContinueOnError p = Some True \<and> \<not> FailFast c' \<longrightarrow>
            Run Some \<lparr>pipeline = pre @ p # post\<rparr> c =
              (case Run_loop Some post (memo @ [Errorf (String p @ '': '') err])
                      \<lparr>ctx = c', events = events st @ [Invoked (String p)]\<rparr> of
                 Inl (e, s) \<Rightarrow> (Some e, s)
               | Inr (m, s) \<Rightarrow> (Memo_Error m, s)))
       \<and> (\<not> (ContinueOnError p = Some True \<and> \<not> FailFast c') \<longrightarrow>
            Run Some \<lparr>pipeline = pre @ p # post\<rparr> c =
              (Some (Errorf (String p @ '': failed to publish artifacts: '') err),
               \<lparr>ctx = c', events = events st @ [Invoked (String p)]\<rparr>))"
  using Run_wrapped_error [OF reach wrapped_Publish_error [OF not_skipped fail], of post]
  by simp

text \<open>
  The pipelines \<open>[A, B, C]\<close> and \<open>[A, C]\<close>, where \<open>A\<close> fails and may continue,
  \<open>B\<close> fails and may not, and \<open>C\<close> succeeds: the first returns B's failure and never
  calls \<open>C\<close>; the second calls both stages and returns the memo with A's failure; in
  fail-fast mode the second returns A's failure at once and never calls \<open>C\<close>.
\<close>

theorem Run_stage_error_witness:
  "Run Some \<lparr>pipeline = [stageA, stageB, stageC]\<rparr> ctx0 =
     (Some (Errorf ''B: failed to publish artifacts: '' (New ''b failed'')),
      \<lparr>ctx = ctx0, events = [Invoked ''A'', Invoked ''B'']\<rparr>)
   \<and> Run Some \<lparr>pipeline = [stageA, stageC]\<rparr> ctx0 =
     (Some (MultiError [Errorf ''A: '' (New ''a failed'')]),
      \<lparr>ctx = ctx0, events = [Invoked ''A'', Invoked ''C'']\<rparr>)
   \<and> Run Some \<lparr>pipeline = [stageA, stageC]\<rparr> (ctx0\<lparr>FailFast := True\<rparr>) =
     (Some (Errorf ''A: failed to publish artifacts: '' (New ''a failed'')),
      \<lparr>ctx = ctx0\<lparr>FailFast := True\<rparr>, events = [Invoked ''A'']\<rparr>)"
proof -
  let ?ff = "ctx0\<lparr>FailFast := True\<rparr>"
  have reachA: "Run_loop Some [stageA] [] \<lparr>ctx = ctx0, events = []\<rparr>
      = Inr ([Errorf ''A: '' (New ''a failed'')], \<lparr>ctx = ctx0, events = [Invoked ''A'']\<rparr>)"
    by (simp add: stageA_def ctx0_def Maybe_def PadLog_def Handle_def Publish_action_def
          continues_def Memorize_def)
  have reach0: "Run_loop Some [] [] \<lparr>ctx = c, events = []\<rparr> = Inr ([], \<lparr>ctx = c, events = []\<rparr>)"
    for c by simp
  have nsA: "case Skip stageA of None \<Rightarrow> True | Some sk \<Rightarrow> \<not> sk (ctx \<lparr>ctx = c, events = []\<rparr>)"
    for c by (simp add: stageA_def)
  have nsB: "case Skip stageB of None \<Rightarrow> True
             | Some sk \<Rightarrow> \<not> sk (ctx \<lparr>ctx = ctx0, events = [Invoked ''A'']\<rparr>)"
    by (simp add: stageB_def)
  have failA: "Publish stageA (ctx \<lparr>ctx = c, events = []\<rparr>) = (Some (New ''a failed''), c)"
    for c by (simp add: stageA_def)
  have failB: "Publish stageB (ctx \<lparr>ctx = ctx0, events = [Invoked ''A'']\<rparr>)
      = (Some (New ''b failed''), ctx0)"
    by (simp add: stageB_def)
  from Run_stage_error [OF reachA nsB failB, of "[stageC]"]
  have r1: "Run Some \<lparr>pipeline = [stageA, stageB, stageC]\<rparr> ctx0 =
     (Some (Errorf ''B: failed to publish artifacts: '' (New ''b failed'')),
      \<lparr>ctx = ctx0, events = [Invoked ''A'', Invoked ''B'']\<rparr>)"
    by (simp add: stageB_def)
  from Run_stage_error [OF reach0 nsA failA, of ctx0 "[stageC]"]
  have r2: "Run Some \<lparr>pipeline = [stageA, stageC]\<rparr> ctx0 =
     (Some (MultiError [Errorf ''A: '' (New ''a failed'')]),
      \<lparr>ctx = ctx0, events = [Invoked ''A'', Invoked ''C'']\<rparr>)"
    by (simp add: stageA_def stageC_def ctx0_def Maybe_def PadLog_def Handle_def
          Publish_action_def Memo_Error_def)
  from Run_stage_error [OF reach0 nsA failA, of ?ff "[stageC]"]
  have r3: "Run Some \<lparr>pipeline = [stageA, stageC]\<rparr> ?ff =
     (Some (Errorf ''A: failed to publish artifacts: '' (New ''a failed'')),
      \<lparr>ctx = ?ff, events = [Invoked ''A'']\<rparr>)"
    by (simp add: stageA_def ctx0_def)
  from r1 r2 r3 show ?thesis by (intro conjI)
qed

text \<open>
  An early return of the loop is always an error built by \<open>fmt.Errorf\<close>, never the
  combined error of the memo.
\<close>

lemma Run_loop_Inl:
  "Run_loop h ps memo st = Inl (err, st') \<Longrightarrow> \<exists>prefix cause. err = Errorf prefix cause"
proof (induction ps arbitrary: memo st)
  case Nil
  then show ?case by simp
next
  case (Cons p ps)
  obtain r st1 where w: "Maybe p (PadLog (String p) (Handle h (Publish_action p))) st = (r, st1)"
    by (cases "Maybe p (PadLog (String p) (Handle h (Publish_action p))) st") auto
  show ?case
  proof (cases r)
    case None
    with w Cons.prems have "Run_loop h ps memo st1 = Inl (err, st')" by simp
    then show ?thesis by (rule Cons.IH)
  next
    case (Some e)
    show ?thesis
    proof (cases "continues p (ctx st1)")
      case True
      with w Some Cons.prems
      have "Run_loop h ps (Memorize memo (Errorf (String p @ '': '') e)) st1 = Inl (err, st')"
        by simp
      then show ?thesis by (rule Cons.IH)
    next
      case False
      with w Some Cons.prems
      have "err = Errorf (String p @ '': failed to publish artifacts: '') e" by simp
      then show ?thesis by blast
    qed
  qed
qed

text \<open>
  Claim C3. When the loop reaches the end of the stage list with the memo \<open>memo\<close>, the
  run returns success exactly when the memo is empty, and otherwise the one combined
  error that holds the memo. Every stage of the pipeline has then been called or skipped,
  in the order of the pipeline, and the memo holds, in that same order, one entry
  \<open>String q: e\<close> for each stage \<open>q\<close> of a subsequence of the pipeline, each of them a
  stage that may continue. Conversely, a run that returns a combined error has reached
  the end of the stage list: every stage was called or skipped before the error is
  returned.
\<close>

theorem Run_end_of_pipeline:
  "(Run_loop h (pipeline p) [] \<lparr>ctx = c, events = []\<rparr> = Inr (memo, st) \<longrightarrow>
      Run h p c = ((if memo = [] then None else Some (MultiError memo)), st)
      \<and> (fst (Run h p c) = None) = (memo = [])
      \<and> map event_name (events st) = map String (pipeline p)
      \<and> (\<exists>fs. memo = map (\<lambda>(q, e). Errorf (String q @ '': '') e) fs
              \<and> subseq (map fst fs) (pipeline p)
              \<and> list_all (\<lambda>(q, e). ContinueOnError q = Some True) fs))
   \<and> (fst (Run h p c) = Some (MultiError es) \<longrightarrow>
      Run_loop h (pipeline p) [] \<lparr>ctx = c, events = []\<rparr> = Inr (es, snd (Run h p c))
      \<and> es \<noteq> []
      \<and> map event_name (events (snd (Run h p c))) = map String (pipeline p))"
proof (intro conjI impI)
  assume r: "Run_loop h (pipeline p) [] \<lparr>ctx = c, events = []\<rparr> = Inr (memo, st)"
  from r Run_loop_Inr[OF r]
  show "Run h p c = ((if memo = [] then None else Some (MultiError memo)), st)"
    and "(fst (Run h p c) = None) = (memo = [])"
    and "map event_name (events st) = map String (pipeline p)"
    and "\<exists>fs. memo = map (\<lambda>(q, e). Errorf (String q @ '': '') e) fs
              \<and> subseq (map fst fs) (pipeline p)
              \<and> list_all (\<lambda>(q, e). ContinueOnError q = Some True) fs"
    by (simp_all add: Run_def Memo_Error_def)
next
  assume m: "fst (Run h p c) = Some (MultiError es)"
  have r: "Run_loop h (pipeline p) [] \<lparr>ctx = c, events = []\<rparr> = Inr (es, snd (Run h p c)) \<and> es \<noteq> []"
  proof (cases "Run_loop h (pipeline p) [] \<lparr>ctx = c, events = []\<rparr>")
    case (Inl a)
    obtain err st' where a: "a = (err, st')" by (cases a)
    from Run_loop_Inl[OF Inl[unfolded a]] obtain prefix cause where "err = Errorf prefix cause"
      by blast
    with m Inl a show ?thesis by (simp add: Run_def)
  next
    case (Inr b)
    obtain memo st' where b: "b = (memo, st')" by (cases b)
    from m Inr b show ?thesis by (auto simp: Run_def Memo_Error_def split: if_splits)
  qed
  then show "Run_loop h (pipeline p) [] \<lparr>ctx = c, events = []\<rparr> = Inr (es, snd (Run h p c))"
    and "es \<noteq> []" by simp_all
  from r Run_loop_Inr[of h "pipeline p" "[]" "\<lparr>ctx = c, events = []\<rparr>" es "snd (Run h p c)"]
  show "map event_name (events (snd (Run h p c))) = map String (pipeline p)" by simp
qed

text \<open>
  With a failing stage that may continue, a skipped stage and a succeeding stage, the
  combined error is returned after all three were reached; with no failure, the run
  succeeds.
\<close>

theorem Run_end_of_pipeline_witness:
  "Run Some \<lparr>pipeline = [stageA, stageS, stageC]\<rparr> ctx0 =
     (Some (MultiError [Errorf ''A: '' (New ''a failed'')]),
      \<lparr>ctx = ctx0, events = [Invoked ''A'', Skipped ''S'', Invoked ''C'']\<rparr>)
   \<and> Run Some \<lparr>pipeline = [stageS, stageC]\<rparr> ctx0 =
     (None, \<lparr>ctx = ctx0, events = [Skipped ''S'', Invoked ''C'']\<rparr>)
   \<and> map event_name (events (snd (Run Some \<lparr>pipeline = [stageA, stageS, stageC]\<rparr> ctx0)))
       = map String [stageA, stageS, stageC]"
proof -
  have a: "Run_loop Some (pipeline \<lparr>pipeline = [stageA, stageS, stageC]\<rparr>) []
             \<lparr>ctx = ctx0, events = []\<rparr>
           = Inr ([Errorf ''A: '' (New ''a failed'')],
                  \<lparr>ctx = ctx0, events = [Invoked ''A'', Skipped ''S'', Invoked ''C'']\<rparr>)"
    by (simp add: stageA_def stageS_def stageC_def Maybe_def PadLog_def Handle_def
          Publish_action_def continues_def Memorize_def ctx0_def)
  have b: "Run_loop Some (pipeline \<lparr>pipeline = [stageS, stageC]\<rparr>) []
             \<lparr>ctx = ctx0, events = []\<rparr>
           = Inr ([], \<lparr>ctx = ctx0, events = [Skipped ''S'', Invoked ''C'']\<rparr>)"
    by (simp add: stageS_def stageC_def Maybe_def PadLog_def Handle_def Publish_action_def)
  note at_end = Run_end_of_pipeline [where es = "[]", THEN conjunct1, rule_format]
  from at_end [OF a]
  have r1: "Run Some \<lparr>pipeline = [stageA, stageS, stageC]\<rparr> ctx0 =
     (Some (MultiError [Errorf ''A: '' (New ''a failed'')]),
      \<lparr>ctx = ctx0, events = [Invoked ''A'', Skipped ''S'', Invoked ''C'']\<rparr>)"
    by simp
  from at_end [OF b]
  have r2: "Run Some \<lparr>pipeline = [stageS, stageC]\<rparr> ctx0 =
     (None, \<lparr>ctx = ctx0, events = [Skipped ''S'', Invoked ''C'']\<rparr>)"
    by simp
  from r1 have "fst (Run Some \<lparr>pipeline = [stageA, stageS, stageC]\<rparr> ctx0)
      = Some (MultiError [Errorf ''A: '' (New ''a failed'')])"
    by simp
  from Run_end_of_pipeline [where memo = "[]" and st = "\<lparr>ctx = ctx0, events = []\<rparr>",
         THEN conjunct2, rule_format, OF this]
  have r3: "map event_name (events (snd (Run Some \<lparr>pipeline = [stageA, stageS, stageC]\<rparr> ctx0)))
       = map String [stageA, stageS, stageC]"
    by simp
  from r1 r2 r3 show ?thesis by (intro conjI)
qed

section \<open>Properties of the Gitea client\<close>

subsection \<open>Releases\<close>

text \<open>
  The scan of \<open>getExistingRelease\<close> is the first match of the list, and what the
  provider's release methods do under \<open>release_store\<close>, one method at a time.
\<close>

lemma getExistingRelease_loop_find:
  "getExistingRelease_loop releases tagName = find (\<lambda>r. TagName r = tagName) releases"
  by (induction releases) auto

lemma getExistingRelease_loop_Some:
  "getExistingRelease_loop releases tagName = Some r \<Longrightarrow> r \<in> set releases \<and> TagName r = tagName"
  by (induction releases) (auto split: if_splits)

lemma getExistingRelease_loop_None:
  "(getExistingRelease_loop releases tagName = None) = (\<forall>r\<in>set releases. TagName r \<noteq> tagName)"
  by (induction releases) auto

lemma release_store_list:
  assumes "release_store cl owner repoName rels"
      and "sdk_ListReleases cl owner repoName s = (r, s')"
  shows "mset (rels s') = mset (rels s)" and "r = Ok rs resp \<Longrightarrow> rs = rels s"
  using assms unfolding release_store_def by blast+

lemma release_store_create:
  assumes "release_store cl owner repoName rels"
      and "sdk_CreateRelease cl owner repoName opt s = (Ok rel resp, s')"
  shows "mset (rels s') = add_mset rel (mset (rels s))" and "TagName rel = co_TagName opt"
    and "ID rel \<notin> ID ` set (rels s)"
proof -
  from assms(1) have
    "\<forall>opt s r s'. sdk_CreateRelease cl owner repoName opt s = (r, s') \<longrightarrow>
          (case r of
             Ok rel resp \<Rightarrow>
               mset (rels s') = add_mset rel (mset (rels s)) \<and> TagName rel = co_TagName opt \<and>
               ID rel \<notin> ID ` set (rels s)
           | Failed resp err \<Rightarrow> mset (rels s') = mset (rels s))"
    unfolding release_store_def by blast
  from this[rule_format, OF assms(2)]
  show "mset (rels s') = add_mset rel (mset (rels s))" and "TagName rel = co_TagName opt"
    and "ID rel \<notin> ID ` set (rels s)" by simp_all
qed

lemma release_store_edit:
  assumes "release_store cl owner repoName rels"
      and "sdk_EditRelease cl owner repoName rid opt s = (Ok rel resp, s')"
  shows "ID rel = rid" and "TagName rel = eo_TagName opt"
    and "mset (rels s') = image_mset (\<lambda>r'. if ID r' = rid then rel else r') (mset (rels s))"
proof -
  from assms(1) have
    "\<forall>rid opt s r s'. sdk_EditRelease cl owner repoName rid opt s = (r, s') \<longrightarrow>
          (case r of
             Ok rel resp \<Rightarrow>
               ID rel = rid \<and> TagName rel = eo_TagName opt \<and>
               mset (rels s') = image_mset (\<lambda>r'. if ID r' = rid then rel else r') (mset (rels s))
           | Failed resp err \<Rightarrow> mset (rels s') = mset (rels s))"
    unfolding release_store_def by blast
  from this[rule_format, OF assms(2)]
  show "ID rel = rid" and "TagName rel = eo_TagName opt"
    and "mset (rels s') = image_mset (\<lambda>r'. if ID r' = rid then rel else r') (mset (rels s))"
    by simp_all
qed

text \<open>
  One successful call of \<open>CreateRelease\<close> against a provider that keeps its releases:
  when the scan finds a release, and when it finds none.
\<close>

lemma CreateRelease_found:
  assumes store: "release_store cl (cfg_Owner (Gitea (Release (Config c))))
                    (cfg_Name (Gitea (Release (Config c)))) rels"
      and ok: "CreateRelease x cl c body w = (Inr rid, w')"
      and found: "getExistingRelease_loop (rels (remote w)) (CurrentTag (Git c)) = Some r"
  shows "\<exists>r'. rid = FormatInt (ID r) \<and> ID r' = ID r \<and> TagName r' = CurrentTag (Git c) \<and>
              mset (rels (remote w')) =
                image_mset (\<lambda>y. if ID y = ID r then r' else y) (mset (rels (remote w)))"
proof -
  let ?o = "cfg_Owner (Gitea (Release (Config c)))" and ?n = "cfg_Name (Gitea (Release (Config c)))"
  from ok obtain title where "tmpl_Apply x c (NameTemplate (Release (Config c))) = Inr title"
    by (auto simp: CreateRelease_def Let_def split: sum.splits)
  note ok' = ok[unfolded CreateRelease_def Let_def this, simplified]
  obtain lr s1 where l: "sdk_ListReleases cl ?o ?n (remote w) = (lr, s1)"
    by (cases "sdk_ListReleases cl ?o ?n (remote w)") auto
  with ok' obtain releases resp where lr: "lr = Ok releases resp"
    by (cases lr) (auto simp: getExistingRelease_def call_def)
  from release_store_list[OF store l] lr
  have rs: "releases = rels (remote w)" and m1: "mset (rels s1) = mset (rels (remote w))"
    by simp_all
  let ?opts = "\<lparr>eo_TagName = CurrentTag (Git c), eo_Target = Commit (Git c), eo_Title = title,
        eo_Note = getReleaseNotes x (Note r) body (ReleaseNotesMode (Release (Config c))),
        eo_IsDraft = Some (Draft (Release (Config c))),
        eo_IsPrerelease = Some (PreRelease c)\<rparr>"
  obtain er s2 where e: "sdk_EditRelease cl ?o ?n (ID r) ?opts s1 = (er, s2)"
    by (cases "sdk_EditRelease cl ?o ?n (ID r) ?opts s1") auto
  from ok' l lr rs found e obtain rel resp2 where er: "er = Ok rel resp2"
    and rid: "rid = FormatInt (ID rel)" and w': "remote w' = s2"
    by (cases er) (auto simp: getExistingRelease_def updateRelease_def call_def log_msg_def Let_def)
  from release_store_edit[OF store e[unfolded er]] m1 rid w'
  show ?thesis by (intro exI[of _ rel]) simp
qed

lemma CreateRelease_not_found:
  assumes store: "release_store cl (cfg_Owner (Gitea (Release (Config c))))
                    (cfg_Name (Gitea (Release (Config c)))) rels"
      and ok: "CreateRelease x cl c body w = (Inr rid, w')"
      and none: "getExistingRelease_loop (rels (remote w)) (CurrentTag (Git c)) = None"
  shows "\<exists>r'. rid = FormatInt (ID r') \<and> TagName r' = CurrentTag (Git c) \<and>
              ID r' \<notin> ID ` set (rels (remote w)) \<and>
              mset (rels (remote w')) = add_mset r' (mset (rels (remote w)))"
proof -
  let ?o = "cfg_Owner (Gitea (Release (Config c)))" and ?n = "cfg_Name (Gitea (Release (Config c)))"
  from ok obtain title where "tmpl_Apply x c (NameTemplate (Release (Config c))) = Inr title"
    by (auto simp: CreateRelease_def Let_def split: sum.splits)
  note ok' = ok[unfolded CreateRelease_def Let_def this, simplified]
  obtain lr s1 where l: "sdk_ListReleases cl ?o ?n (remote w) = (lr, s1)"
    by (cases "sdk_ListReleases cl ?o ?n (remote w)") auto
  with ok' obtain releases resp where lr: "lr = Ok releases resp"
    by (cases lr) (auto simp: getExistingRelease_def call_def)
  from release_store_list[OF store l] lr
  have rs: "releases = rels (remote w)" and m1: "mset (rels s1) = mset (rels (remote w))"
    by simp_all
  let ?opts = "\<lparr>co_TagName = CurrentTag (Git c), co_Target = Commit (Git c), co_Title = title,
        co_Note = body, co_IsDraft = Draft (Release (Config c)),
        co_IsPrerelease = PreRelease c\<rparr>"
  obtain cr s2 where e: "sdk_CreateRelease cl ?o ?n ?opts s1 = (cr, s2)"
    by (cases "sdk_CreateRelease cl ?o ?n ?opts s1") auto
  from ok' l lr rs none e obtain rel resp2 where cr: "cr = Ok rel resp2"
    and rid: "rid = FormatInt (ID rel)" and w': "remote w' = s2"
    by (cases cr) (auto simp: getExistingRelease_def createRelease_def call_def log_msg_def Let_def)
  from m1 have "set (rels s1) = set (rels (remote w))" by (rule mset_eq_setD)
  with release_store_create[OF store e[unfolded cr]] m1 rid w'
  show ?thesis by (intro exI[of _ rel]) simp
qed

lemma fold_max_ge: "(a::int) \<le> fold max xs a \<and> (\<forall>y\<in>set xs. y \<le> fold max xs a)"
proof (induction xs arbitrary: a)
  case Nil
  show ?case by simp
next
  case (Cons x xs)
  from Cons.IH[of "max x a"] show ?case by auto
qed

lemma fresh_ID_fresh: "fresh_ID rs \<notin> ID ` set rs"
proof
  assume "fresh_ID rs \<in> ID ` set rs"
  then have "fresh_ID rs \<in> set (map ID rs)" by simp
  with fold_max_ge[of 0 "map ID rs"] have "fresh_ID rs \<le> fold max (map ID rs) 0" by blast
  then show False by (simp add: fresh_ID_def)
qed

lemma edited_ID_TagName: "ID (edited r opt) = ID r" "TagName (edited r opt) = eo_TagName opt"
  by (simp_all add: edited_def)

lemma release_list_store: "release_store release_list owner repoName (\<lambda>s. s)"
proof -
  have e: "find (\<lambda>r. ID r = rid) s = Some r \<Longrightarrow> ID r = rid" for rid s and r :: Release
    by (induction s) (auto split: if_splits)
  show ?thesis
    unfolding release_store_def
    by (auto simp: release_list_def Let_def fresh_ID_fresh edited_ID_TagName dest: e
             split: option.splits)
qed

text \<open>
  Claim C1. Let the provider keep its releases (\<open>release_store\<close>) and let a call of
  \<open>CreateRelease\<close> succeed with the identifier \<open>rid\<close>. The release the call looks for is
  the first stored release whose tag is equal, as a string, to the current tag. If there
  is one, \<open>rid\<close> is its identifier and the stored releases with that identifier are
  replaced by one release with the same identifier and the current tag; nothing is added.
  If there is none, one release with the current tag and a new identifier is added, and
  \<open>rid\<close> is its identifier. Hence, when no stored release carries the tag before the
  first call, a second successful call for the same repository and tag returns the same
  identifier, leaves the number of stored releases as the first call left it, and exactly
  one stored release carries the tag: the one with that identifier.
\<close>

theorem CreateRelease_idempotent:
  assumes store: "release_store cl (cfg_Owner (Gitea (Release (Config c))))
                    (cfg_Name (Gitea (Release (Config c)))) rels"
      and first: "CreateRelease x cl c body w = (Inr rid, w1)"
  shows "getExistingRelease_loop (rels (remote w)) (CurrentTag (Git c))
           = find (\<lambda>r. TagName r = CurrentTag (Git c)) (rels (remote w))
       \<and> (case getExistingRelease_loop (rels (remote w)) (CurrentTag (Git c)) of
            Some r \<Rightarrow>
              rid = FormatInt (ID r) \<and>
              (\<exists>r'. ID r' = ID r \<and> TagName r' = CurrentTag (Git c) \<and>
                 mset (rels (remote w1)) =
                   image_mset (\<lambda>y. if ID y = ID r then r' else y) (mset (rels (remote w))))
          | None \<Rightarrow>
              (\<exists>r'. rid = FormatInt (ID r') \<and> TagName r' = CurrentTag (Git c) \<and>
                 ID r' \<notin> ID ` set (rels (remote w)) \<and>
                 mset (rels (remote w1)) = add_mset r' (mset (rels (remote w)))))
       \<and> (\<forall>x' c' body' rid' w2.
            (\<forall>r\<in>set (rels (remote w)). TagName r \<noteq> CurrentTag (Git c)) \<and>
            Gitea (Release (Config c')) = Gitea (Release (Config c)) \<and>
            CurrentTag (Git c') = CurrentTag (Git c) \<and>
            CreateRelease x' cl c' body' w1 = (Inr rid', w2) \<longrightarrow>
            rid' = rid \<and>
            length (rels (remote w2)) = length (rels (remote w1)) \<and>
            (\<exists>r2. filter_mset (\<lambda>r. TagName r = CurrentTag (Git c)) (mset (rels (remote w2))) = {#r2#}
                 \<and> FormatInt (ID r2) = rid))"
proof -
  let ?tag = "CurrentTag (Git c)"
  have scan: "getExistingRelease_loop (rels (remote w)) ?tag
           = find (\<lambda>r. TagName r = ?tag) (rels (remote w))"
    by (rule getExistingRelease_loop_find)
  have one_call: "case getExistingRelease_loop (rels (remote w)) ?tag of
            Some r \<Rightarrow>
              rid = FormatInt (ID r) \<and>
              (\<exists>r'. ID r' = ID r \<and> TagName r' = ?tag \<and>
                 mset (rels (remote w1)) =
                   image_mset (\<lambda>y. if ID y = ID r then r' else y) (mset (rels (remote w))))
          | None \<Rightarrow>
              (\<exists>r'. rid = FormatInt (ID r') \<and> TagName r' = ?tag \<and>
                 ID r' \<notin> ID ` set (rels (remote w)) \<and>
                 mset (rels (remote w1)) = add_mset r' (mset (rels (remote w))))"
  proof (cases "getExistingRelease_loop (rels (remote w)) ?tag")
    case None
    from CreateRelease_not_found[OF store first None] None show ?thesis by simp
  next
    case (Some r)
    from CreateRelease_found[OF store first Some] Some show ?thesis by auto
  qed
  have twice: "rid' = rid \<and>
            length (rels (remote w2)) = length (rels (remote w1)) \<and>
            (\<exists>r2. filter_mset (\<lambda>r. TagName r = ?tag) (mset (rels (remote w2))) = {#r2#}
                 \<and> FormatInt (ID r2) = rid)"
    if absent: "\<forall>r\<in>set (rels (remote w)). TagName r \<noteq> ?tag"
      and same: "Gitea (Release (Config c')) = Gitea (Release (Config c))"
      and tag': "CurrentTag (Git c') = ?tag"
      and second: "CreateRelease x' cl c' body' w1 = (Inr rid', w2)"
    for x' c' body' rid' w2
  proof -
    from absent have "getExistingRelease_loop (rels (remote w)) ?tag = None"
      by (simp add: getExistingRelease_loop_None)
    from CreateRelease_not_found[OF store first this] obtain r1 where
      rid: "rid = FormatInt (ID r1)" and t1: "TagName r1 = ?tag"
      and fresh: "ID r1 \<notin> ID ` set (rels (remote w))"
      and m1: "mset (rels (remote w1)) = add_mset r1 (mset (rels (remote w)))" by blast
    from m1 have s1: "set (rels (remote w1)) = insert r1 (set (rels (remote w)))"
      by (metis set_mset_add_mset_insert set_mset_mset)
    have store': "release_store cl (cfg_Owner (Gitea (Release (Config c'))))
                      (cfg_Name (Gitea (Release (Config c')))) rels"
      using store same by simp
    have "getExistingRelease_loop (rels (remote w1)) (CurrentTag (Git c')) \<noteq> None"
      using s1 t1 tag' by (auto simp: getExistingRelease_loop_None)
    then obtain r where
      f: "getExistingRelease_loop (rels (remote w1)) (CurrentTag (Git c')) = Some r"
      by blast
    from getExistingRelease_loop_Some[OF f] s1 absent tag' have r: "r = r1" by auto
    from CreateRelease_found[OF store' second f] r tag' obtain r2 where
      rid': "rid' = FormatInt (ID r1)" and i2: "ID r2 = ID r1" and t2: "TagName r2 = ?tag"
      and m2: "mset (rels (remote w2)) =
                 image_mset (\<lambda>y. if ID y = ID r1 then r2 else y) (mset (rels (remote w1)))"
      by auto
    have keep: "image_mset (\<lambda>y. if ID y = ID r1 then r2 else y) (mset (rels (remote w)))
                  = mset (rels (remote w))"
    proof -
      have "image_mset (\<lambda>y. if ID y = ID r1 then r2 else y) (mset (rels (remote w)))
              = image_mset (\<lambda>y. y) (mset (rels (remote w)))"
        using fresh by (intro image_mset_cong) (auto simp: image_iff; metis)
      then show ?thesis by simp
    qed
    have m2': "mset (rels (remote w2)) = add_mset r2 (mset (rels (remote w)))"
      using m2 m1 keep by simp
    have none: "filter_mset (\<lambda>r. TagName r = ?tag) (mset (rels (remote w))) = {#}"
      using absent by simp
    have one: "filter_mset (\<lambda>r. TagName r = ?tag) (mset (rels (remote w2))) = {#r2#}"
      using m2' t2 none by simp
    have len: "length (rels (remote w2)) = length (rels (remote w1))"
      using m2 by (metis size_image_mset size_mset)
    show ?thesis
      using rid rid' len one i2 by auto
  qed
  from scan one_call twice show ?thesis by blast
qed

text \<open>
  The provider that keeps a list of releases meets \<open>release_store\<close>. Starting from no
  release, two calls in a row for the tag \<open>v1.0.0\<close> both return \<open>1\<close>, and the list
  holds one release.
\<close>

theorem CreateRelease_idempotent_witness:
  "CreateRelease x0 release_list ctx0 ''first'' \<lparr>remote = [], logged = []\<rparr>
     = (Inr ''1'',
        \<lparr>remote = [\<lparr>ID = 1, TagName = ''v1.0.0'', Target = ''0123abc'', Title = ''v1.0.0'',
                     Note = ''first'', IsDraft = False, IsPrerelease = False\<rparr>],
         logged = [(InfoLevel, ''Gitea release created'')]\<rparr>)
   \<and> CreateRelease x0 release_list (ctx0\<lparr>PreRelease := True\<rparr>) ''second''
       \<lparr>remote = [\<lparr>ID = 1, TagName = ''v1.0.0'', Target = ''0123abc'', Title = ''v1.0.0'',
                    Note = ''first'', IsDraft = False, IsPrerelease = False\<rparr>],
        logged = [(InfoLevel, ''Gitea release created'')]\<rparr>
     = (Inr ''1'',
        \<lparr>remote = [\<lparr>ID = 1, TagName = ''v1.0.0'', Target = ''0123abc'', Title = ''v1.0.0'',
                     Note = ''first'', IsDraft = False, IsPrerelease = True\<rparr>],
         logged = [(InfoLevel, ''Gitea release created''), (InfoLevel, ''Gitea release updated'')]\<rparr>)
   \<and> filter_mset (\<lambda>r. TagName r = ''v1.0.0'')
        (mset [\<lparr>ID = 1, TagName = ''v1.0.0'', Target = ''0123abc'', Title = ''v1.0.0'',
                Note = ''first'', IsDraft = False, IsPrerelease = True\<rparr>])
     = {#\<lparr>ID = 1, TagName = ''v1.0.0'', Target = ''0123abc'', Title = ''v1.0.0'',
          Note = ''first'', IsDraft = False, IsPrerelease = True\<rparr>#}"
proof -
  let ?r1 = "\<lparr>ID = 1, TagName = ''v1.0.0'', Target = ''0123abc'', Title = ''v1.0.0'',
              Note = ''first'', IsDraft = False, IsPrerelease = False\<rparr>"
  let ?r2 = "\<lparr>ID = 1, TagName = ''v1.0.0'', Target = ''0123abc'', Title = ''v1.0.0'',
              Note = ''first'', IsDraft = False, IsPrerelease = True\<rparr>"
  let ?w0 = "\<lparr>remote = [] :: Release list, logged = []\<rparr>"
  let ?w1 = "\<lparr>remote = [?r1], logged = [(InfoLevel, ''Gitea release created'')]\<rparr>"
  let ?w2 = "\<lparr>remote = [?r2],
             logged = [(InfoLevel, ''Gitea release created''), (InfoLevel, ''Gitea release updated'')]\<rparr>"
  let ?c' = "ctx0\<lparr>PreRelease := True\<rparr>"
  have one: "FormatInt 1 = ''1''"
    by (simp add: FormatInt_def FormatUint.simps)
  have store: "release_store release_list (cfg_Owner (Gitea (Release (Config ctx0))))
                 (cfg_Name (Gitea (Release (Config ctx0)))) (\<lambda>s. s)"
    by (rule release_list_store)
  have first: "CreateRelease x0 release_list ctx0 ''first'' ?w0 = (Inr ''1'', ?w1)"
    by (simp add: CreateRelease_def getExistingRelease_def createRelease_def call_def
          log_msg_def release_list_def x0_def ctx0_def fresh_ID_def one Let_def)
  have second: "CreateRelease x0 release_list ?c' ''second'' ?w1 = (Inr ''1'', ?w2)"
    by (simp add: CreateRelease_def getExistingRelease_def updateRelease_def call_def
          log_msg_def release_list_def x0_def ctx0_def edited_def one Let_def)
  from CreateRelease_idempotent [OF store first]
  have "\<forall>x' c' body' rid' w2.
            (\<forall>r\<in>set (remote ?w0). TagName r \<noteq> CurrentTag (Git ctx0)) \<and>
            Gitea (Release (Config c')) = Gitea (Release (Config ctx0)) \<and>
            CurrentTag (Git c') = CurrentTag (Git ctx0) \<and>
            CreateRelease x' release_list c' body' ?w1 = (Inr rid', w2) \<longrightarrow>
            rid' = ''1'' \<and>
            length (remote w2) = length (remote ?w1) \<and>
            (\<exists>r2. filter_mset (\<lambda>r. TagName r = CurrentTag (Git ctx0)) (mset (remote w2)) = {#r2#}
                 \<and> FormatInt (ID r2) = ''1'')"
    by blast
  from this [rule_format, of ?c' x0 "''second''" "''1''" ?w2] second
  have "\<exists>r2. filter_mset (\<lambda>r. TagName r = CurrentTag (Git ctx0)) (mset (remote ?w2)) = {#r2#}
             \<and> FormatInt (ID r2) = ''1''"
    by (simp add: ctx0_def)
  then have "filter_mset (\<lambda>r. TagName r = ''v1.0.0'') (mset [?r2]) = {#?r2#}"
    by (auto simp: ctx0_def split: if_splits)
  with first second show ?thesis by simp
qed

text \<open>
  Claim C9. \<open>PublishRelease\<close> returns \<open>nil\<close> for every client, context and release
  identifier, and leaves the provider and the log as they were: it calls nothing.
\<close>

theorem PublishRelease_noop: "PublishRelease cl c releaseID w = (None, w)"
  by (simp add: PublishRelease_def)

subsection \<open>Files\<close>

text \<open>
  Claim C4. \<open>CreateFile\<close> fetches the contents of the path on the branch it resolved.
  If the fetch fails with a response of status 404, the result and the final state are
  those of the SDK's create call; if it fails in any other way (another status, or no
  response at all), the fetch's error is returned and the state is the one the fetch left;
  if it succeeds, the result and the final state are those of the SDK's update call, which
  carries the SHA the fetch returned.
\<close>

theorem CreateFile_three_way:
  assumes br: "CreateFile_branch cl c repo w = (branch, w1)"
      and get: "call (sdk_GetContents cl (Owner repo) (Name repo) branch path)
                  (log_msg InfoLevel ''pushing'' w1) = (r, w3)"
      and fo: "fileOptions =
                 \<lparr>fo_Message = message, BranchName = branch,
                  fo_Author = \<lparr>id_Name = ca_Name commitAuthor, id_Email = ca_Email commitAuthor\<rparr>,
                  Committer = \<lparr>id_Name = ca_Name commitAuthor, id_Email = ca_Email commitAuthor\<rparr>\<rparr>"
  shows "CreateFile x cl c commitAuthor repo content path message w =
           (case r of
              Failed resp err \<Rightarrow>
                if is_not_found resp
                then (case call (sdk_CreateFile cl (Owner repo) (Name repo) path
                                   \<lparr>cf_FileOptions = fileOptions,
                                    cf_Content = base64_EncodeToString x content\<rparr>) w3 of
                        (r', w4) \<Rightarrow> (map_option External (sdk_err r'), w4))
                else (Some (External err), w3)
            | Ok currentFile resp \<Rightarrow>
                (case call (sdk_UpdateFile cl (Owner repo) (Name repo) path
                              \<lparr>uf_FileOptions = fileOptions, uf_SHA = cr_SHA currentFile,
                               uf_Content = base64_EncodeToString x content\<rparr>) w3 of
                   (r', w4) \<Rightarrow> (map_option External (sdk_err r'), w4)))"
proof (cases r)
  case (Ok currentFile resp)
  with br get fo show ?thesis by (simp add: CreateFile_def Let_def)
next
  case (Failed resp err)
  have "is_not_found resp \<Longrightarrow> resp \<noteq> None" by (cases resp) (auto simp: is_not_found_def)
  with Failed br get fo show ?thesis by (auto simp: CreateFile_def Let_def)
qed

text \<open>
  The four cases against the recording provider: status 404, then the provider has
  received the fetch and one create call; status 403 and no response, then it has received
  the fetch only; a successful fetch, then it has received the fetch and one update call
  with the fetched SHA.
\<close>

theorem CreateFile_three_way_witness:
  "CreateFile x0 (recorder (all_ok\<lparr>on_GetContents := Failed (http 404) (ExtError ''no file'')\<rparr>))
     ctx0 author0 (repo0\<lparr>Branch := ''main''\<rparr>) ''class X'' ''Formula/x.rb'' ''update x'' w0
   = (None,
      \<lparr>remote =
         [GetContentsCall ''owner'' ''tap'' ''main'' ''Formula/x.rb'',
          CreateFileCall ''owner'' ''tap'' ''Formula/x.rb''
            \<lparr>cf_FileOptions =
               \<lparr>fo_Message = ''update x'', BranchName = ''main'',
                fo_Author = \<lparr>id_Name = ''bot'', id_Email = ''bot@example.com''\<rparr>,
                Committer = \<lparr>id_Name = ''bot'', id_Email = ''bot@example.com''\<rparr>\<rparr>,
             cf_Content = ''class X''\<rparr>],
       logged = [(InfoLevel, ''pushing'')]\<rparr>)
   \<and> CreateFile x0 (recorder (all_ok\<lparr>on_GetContents := Failed (http 403) (ExtError ''forbidden'')\<rparr>))
     ctx0 author0 (repo0\<lparr>Branch := ''main''\<rparr>) ''class X'' ''Formula/x.rb'' ''update x'' w0
   = (Some (External (ExtError ''forbidden'')),
      \<lparr>remote = [GetContentsCall ''owner'' ''tap'' ''main'' ''Formula/x.rb''],
       logged = [(InfoLevel, ''pushing'')]\<rparr>)
   \<and> CreateFile x0 (recorder (all_ok\<lparr>on_GetContents := Failed None (ExtError ''timeout'')\<rparr>))
     ctx0 author0 (repo0\<lparr>Branch := ''main''\<rparr>) ''class X'' ''Formula/x.rb'' ''update x'' w0
   = (Some (External (ExtError ''timeout'')),
      \<lparr>remote = [GetContentsCall ''owner'' ''tap'' ''main'' ''Formula/x.rb''],
       logged = [(InfoLevel, ''pushing'')]\<rparr>)
   \<and> CreateFile x0 (recorder all_ok)
     ctx0 author0 (repo0\<lparr>Branch := ''main''\<rparr>) ''class X'' ''Formula/x.rb'' ''update x'' w0
   = (None,
      \<lparr>remote =
         [GetContentsCall ''owner'' ''tap'' ''main'' ''Formula/x.rb'',
          UpdateFileCall ''owner'' ''tap'' ''Formula/x.rb''
            \<lparr>uf_FileOptions =
               \<lparr>fo_Message = ''update x'', BranchName = ''main'',
                fo_Author = \<lparr>id_Name = ''bot'', id_Email = ''bot@example.com''\<rparr>,
                Committer = \<lparr>id_Name = ''bot'', id_Email = ''bot@example.com''\<rparr>\<rparr>,
             uf_SHA = ''9fceb02'', uf_Content = ''class X''\<rparr>],
       logged = [(InfoLevel, ''pushing'')]\<rparr>)"
proof -
  let ?repo = "repo0\<lparr>Branch := ''main''\<rparr>"
  let ?w1 = "\<lparr>remote = [GetContentsCall ''owner'' ''tap'' ''main'' ''Formula/x.rb''],
             logged = [(InfoLevel, ''pushing'')]\<rparr>"
  have br: "CreateFile_branch cl ctx0 ?repo w0 = (''main'', w0)" for cl :: "sdk_call list gitea_Client"
    by (simp add: CreateFile_branch_def repo0_def)
  have get: "call (sdk_GetContents (recorder rs) (Owner ?repo) (Name ?repo) ''main'' ''Formula/x.rb'')
               (log_msg InfoLevel ''pushing'' w0) = (on_GetContents rs, ?w1)" for rs
    by (simp add: call_def recorder_def repo0_def log_msg_def w0_def)
  note t = CreateFile_three_way [where x = x0 and commitAuthor = author0
               and content = "''class X''" and message = "''update x''", OF br _ refl]
  from t [OF get [of "all_ok\<lparr>on_GetContents := Failed (http 404) (ExtError ''no file'')\<rparr>"]]
       t [OF get [of "all_ok\<lparr>on_GetContents := Failed (http 403) (ExtError ''forbidden'')\<rparr>"]]
       t [OF get [of "all_ok\<lparr>on_GetContents := Failed None (ExtError ''timeout'')\<rparr>"]]
       t [OF get [of all_ok]]
  show ?thesis
    by (simp add: is_not_found_def http_def call_def recorder_def all_ok_def repo0_def
          author0_def x0_def)
qed

text \<open>
  Claim C5. With no branch override and a failing default-branch lookup, the value of
  \<open>branch\<close> is the empty string, not \<open>master\<close>: the source logs the warning that ends in
  "using master" and assigns nothing. The operation does not fail at this point, and two
  warnings are logged (one by \<open>getDefaultBranch\<close>, one by \<open>CreateFile\<close>).
\<close>

theorem CreateFile_branch_lookup_fails:
  assumes "Branch repo = ''''"
      and "sdk_GetRepo cl (Owner repo) (Name repo) (remote w) = (Failed resp err, s')"
  shows "CreateFile_branch cl c repo w =
           ('''', \<lparr>remote = s',
                  logged = logged w @
                    [(WarnLevel, ''error checking for default branch''),
                     (WarnLevel, ''error checking for default branch, using master'')]\<rparr>)"
  using assms
  by (simp add: CreateFile_branch_def getDefaultBranch_def call_def log_msg_def)

text \<open>
  The whole of \<open>CreateFile\<close> on such an input: the fetch and the create call both
  carry the empty branch.
\<close>

theorem CreateFile_branch_lookup_fails_witness:
  "CreateFile x0
     (recorder (all_ok\<lparr>on_GetRepo := Failed (http 500) (ExtError ''boom''),
                       on_GetContents := Failed (http 404) (ExtError ''no file'')\<rparr>))
     ctx0 author0 repo0 ''class X'' ''Formula/x.rb'' ''update x'' w0
   = (None,
      \<lparr>remote =
         [GetRepoCall ''owner'' ''tap'',
          GetContentsCall ''owner'' ''tap'' '''' ''Formula/x.rb'',
          CreateFileCall ''owner'' ''tap'' ''Formula/x.rb''
            \<lparr>cf_FileOptions =
               \<lparr>fo_Message = ''update x'', BranchName = '''',
                fo_Author = \<lparr>id_Name = ''bot'', id_Email = ''bot@example.com''\<rparr>,
                Committer = \<lparr>id_Name = ''bot'', id_Email = ''bot@example.com''\<rparr>\<rparr>,
             cf_Content = ''class X''\<rparr>],
       logged =
         [(WarnLevel, ''error checking for default branch''),
          (WarnLevel, ''error checking for default branch, using master''),
          (InfoLevel, ''pushing'')]\<rparr>)"
proof -
  let ?cl = "recorder (all_ok\<lparr>on_GetRepo := Failed (http 500) (ExtError ''boom''),
                              on_GetContents := Failed (http 404) (ExtError ''no file'')\<rparr>)"
  have b: "Branch repo0 = ''''" by (simp add: repo0_def)
  have g: "sdk_GetRepo ?cl (Owner repo0) (Name repo0) (remote w0)
             = (Failed (http 500) (ExtError ''boom''), [GetRepoCall ''owner'' ''tap''])"
    by (simp add: recorder_def repo0_def w0_def)
  from CreateFile_branch_lookup_fails [OF b g, of ctx0]
  show ?thesis
    by (simp add: CreateFile_def Let_def is_not_found_def http_def call_def recorder_def
          all_ok_def repo0_def author0_def x0_def log_msg_def w0_def)
qed

subsection \<open>Upload\<close>

text \<open>An error of \<open>strconv.ParseInt\<close> is a \<open>NumError\<close>, never the retriable marker.\<close>

lemma ParseInt_error_not_retriable: "ParseInt s = Inl perr \<Longrightarrow> \<not> is_retriable perr"
  by (auto simp: ParseInt_def Let_def split: if_splits sum.splits num_err.splits)

text \<open>
  Claim C6, as the code has it. When the release identifier is not a decimal 64-bit
  integer, \<open>Upload\<close> returns the error of \<open>strconv.ParseInt\<close> as it is, not wrapped, and
  the provider and the log are untouched: no call is made. When the identifier parses and
  the SDK's attachment call fails, \<open>Upload\<close> returns that failure wrapped in
  \<open>RetriableError\<close>, with the state the call left. When the identifier parses and the
  call succeeds, \<open>Upload\<close> returns \<open>nil\<close>. So a failing \<open>Upload\<close> has failed in one of
  the first two ways, and its error is retriable exactly when the identifier parses.
\<close>

theorem Upload_errors:
  "(\<forall>perr. ParseInt releaseID = Inl perr \<longrightarrow>
       Upload cl c releaseID artifact file w = (Some perr, w) \<and> \<not> is_retriable perr)
   \<and> (\<forall>rid resp e w'.
         ParseInt releaseID = Inr rid \<and>
         call (sdk_CreateReleaseAttachment cl (cfg_Owner (Gitea (Release (Config c))))
                 (cfg_Name (Gitea (Release (Config c)))) rid file (art_Name artifact)) w
           = (Failed resp e, w') \<longrightarrow>
         Upload cl c releaseID artifact file w = (Some (RetriableError (External e)), w'))
   \<and> (\<forall>rid v resp w'.
         ParseInt releaseID = Inr rid \<and>
         call (sdk_CreateReleaseAttachment cl (cfg_Owner (Gitea (Release (Config c))))
                 (cfg_Name (Gitea (Release (Config c)))) rid file (art_Name artifact)) w
           = (Ok v resp, w') \<longrightarrow>
         Upload cl c releaseID artifact file w = (None, w'))
   \<and> (\<forall>err w'. Upload cl c releaseID artifact file w = (Some err, w') \<longrightarrow>
         is_retriable err = (\<exists>rid. ParseInt releaseID = Inr rid) \<and>
         (case ParseInt releaseID of
            Inl perr \<Rightarrow> err = perr \<and> w' = w
          | Inr rid \<Rightarrow>
              (\<exists>resp e. err = RetriableError (External e) \<and>
                 call (sdk_CreateReleaseAttachment cl (cfg_Owner (Gitea (Release (Config c))))
                         (cfg_Name (Gitea (Release (Config c)))) rid file (art_Name artifact)) w
                   = (Failed resp e, w'))))"
proof (intro conjI allI impI)
  fix perr assume "ParseInt releaseID = Inl perr"
  then show "Upload cl c releaseID artifact file w = (Some perr, w)"
    and "\<not> is_retriable perr"
    by (simp_all add: Upload_def ParseInt_error_not_retriable)
next
  fix rid resp e w'
  assume "ParseInt releaseID = Inr rid \<and>
         call (sdk_CreateReleaseAttachment cl (cfg_Owner (Gitea (Release (Config c))))
                 (cfg_Name (Gitea (Release (Config c)))) rid file (art_Name artifact)) w
           = (Failed resp e, w')"
  then show "Upload cl c releaseID artifact file w = (Some (RetriableError (External e)), w')"
    by (simp add: Upload_def Let_def)
next
  fix rid v resp w'
  assume "ParseInt releaseID = Inr rid \<and>
         call (sdk_CreateReleaseAttachment cl (cfg_Owner (Gitea (Release (Config c))))
                 (cfg_Name (Gitea (Release (Config c)))) rid file (art_Name artifact)) w
           = (Ok v resp, w')"
  then show "Upload cl c releaseID artifact file w = (None, w')"
    by (simp add: Upload_def Let_def)
next
  fix err w'
  assume u: "Upload cl c releaseID artifact file w = (Some err, w')"
  show "is_retriable err = (\<exists>rid. ParseInt releaseID = Inr rid)"
    using u ParseInt_error_not_retriable [of releaseID]
    by (auto simp: Upload_def Let_def split: sum.splits prod.splits sdk_result.splits)
  show "case ParseInt releaseID of
            Inl perr \<Rightarrow> err = perr \<and> w' = w
          | Inr rid \<Rightarrow>
              (\<exists>resp e. err = RetriableError (External e) \<and>
                 call (sdk_CreateReleaseAttachment cl (cfg_Owner (Gitea (Release (Config c))))
                         (cfg_Name (Gitea (Release (Config c)))) rid file (art_Name artifact)) w
                   = (Failed resp e, w'))"
    using u
    by (auto simp: Upload_def Let_def split: sum.splits prod.splits sdk_result.splits)
qed

text \<open>
  A failing attachment call is wrapped; a succeeding one gives no error; an identifier one
  past the largest 64-bit integer is a range error, returned as it is.
\<close>

theorem Upload_errors_witness:
  "Upload (recorder (all_ok\<lparr>on_CreateReleaseAttachment := Failed (http 422) (ExtError ''exists'')\<rparr>))
     ctx0 ''7'' \<lparr>art_Name = ''prog.tar.gz''\<rparr> ''/tmp/prog.tar.gz'' w0
   = (Some (RetriableError (External (ExtError ''exists''))),
      \<lparr>remote = [CreateReleaseAttachmentCall ''owner'' ''repo'' 7 ''/tmp/prog.tar.gz'' ''prog.tar.gz''],
       logged = []\<rparr>)
   \<and> Upload (recorder all_ok) ctx0 ''7'' \<lparr>art_Name = ''prog.tar.gz''\<rparr> ''/tmp/prog.tar.gz'' w0
   = (None,
      \<lparr>remote = [CreateReleaseAttachmentCall ''owner'' ''repo'' 7 ''/tmp/prog.tar.gz'' ''prog.tar.gz''],
       logged = []\<rparr>)
   \<and> Upload (recorder all_ok) ctx0 ''9223372036854775808'' \<lparr>art_Name = ''prog.tar.gz''\<rparr>
       ''/tmp/prog.tar.gz'' w0
   = (Some (NumError ''ParseInt'' ''9223372036854775808'' ErrRange), w0)
   \<and> is_retriable (RetriableError (External (ExtError ''exists'')))
   \<and> ParseInt ''-9223372036854775808'' = Inr (- 9223372036854775808)"
proof -
  let ?bad = "all_ok\<lparr>on_CreateReleaseAttachment := Failed (http 422) (ExtError ''exists'')\<rparr>"
  let ?art = "\<lparr>art_Name = ''prog.tar.gz''\<rparr>"
  let ?w = "\<lparr>remote = [CreateReleaseAttachmentCall ''owner'' ''repo'' 7 ''/tmp/prog.tar.gz''
                         ''prog.tar.gz''], logged = []\<rparr>"
  have p: "ParseInt ''7'' = Inr 7"
    by (simp add: ParseInt_def ParseUint_def)
  have q: "ParseInt ''9223372036854775808'' = Inl (NumError ''ParseInt'' ''9223372036854775808'' ErrRange)"
    by (simp add: ParseInt_def ParseUint_def)
  have m: "ParseInt ''-9223372036854775808'' = Inr (- 9223372036854775808)"
    by (simp add: ParseInt_def ParseUint_def)
  have a: "call (sdk_CreateReleaseAttachment (recorder rs) (cfg_Owner (Gitea (Release (Config ctx0))))
                   (cfg_Name (Gitea (Release (Config ctx0)))) 7 ''/tmp/prog.tar.gz''
                   (art_Name ?art)) w0
             = (on_CreateReleaseAttachment rs, ?w)" for rs
    by (simp add: call_def recorder_def ctx0_def w0_def)
  from Upload_errors [of "''7''" "recorder ?bad" ctx0 ?art "''/tmp/prog.tar.gz''" w0,
          THEN conjunct2, THEN conjunct1, rule_format, of 7 "http 422" "ExtError ''exists''" ?w]
       p a [of ?bad]
  have u1: "Upload (recorder ?bad) ctx0 ''7'' ?art ''/tmp/prog.tar.gz'' w0
      = (Some (RetriableError (External (ExtError ''exists''))), ?w)"
    by simp
  from Upload_errors [of "''7''" "recorder all_ok" ctx0 ?art "''/tmp/prog.tar.gz''" w0,
          THEN conjunct2, THEN conjunct2, THEN conjunct1, rule_format, of 7 "()" "http 201" ?w]
       p a [of all_ok]
  have u2: "Upload (recorder all_ok) ctx0 ''7'' ?art ''/tmp/prog.tar.gz'' w0 = (None, ?w)"
    by (simp add: all_ok_def)
  from Upload_errors [of "''9223372036854775808''" "recorder all_ok" ctx0 ?art
          "''/tmp/prog.tar.gz''" w0, THEN conjunct1, rule_format, OF q]
  have u3: "Upload (recorder all_ok) ctx0 ''9223372036854775808'' ?art ''/tmp/prog.tar.gz'' w0
      = (Some (NumError ''ParseInt'' ''9223372036854775808'' ErrRange), w0)"
    by simp
  from Upload_errors [of "''7''" "recorder ?bad" ctx0 ?art "''/tmp/prog.tar.gz''" w0,
          THEN conjunct2, THEN conjunct2, THEN conjunct2, rule_format, OF u1] p
  have u4: "is_retriable (RetriableError (External (ExtError ''exists'')))"
    by simp
  from u1 u2 u3 u4 m show ?thesis by (intro conjI)
qed

text \<open>
  Claim C6 as stated fails: for the release identifier \<open>abc\<close> the call fails with the
  syntax error of \<open>strconv.ParseInt\<close>, which is not wrapped.
\<close>

theorem Upload_unparsed_id_counterexample:
  "Upload (recorder all_ok) ctx0 ''abc'' \<lparr>art_Name = ''prog.tar.gz''\<rparr> ''/tmp/prog.tar.gz'' w0
     = (Some (NumError ''ParseInt'' ''abc'' ErrSyntax), w0)
   \<and> \<not> is_retriable (NumError ''ParseInt'' ''abc'' ErrSyntax)"
  by (simp add: Upload_def ParseInt_def ParseUint_def)

subsection \<open>Milestones\<close>

text \<open>
  Claim C7. \<open>CloseMilestone\<close> makes one SDK call, \<open>EditMilestoneByName\<close> with the state
  \<open>closed\<close> and the title. It returns \<open>ErrNoMilestoneFound\<close> (with the title) exactly
  when that call comes back with a response of status 404; in every other case it returns
  the error of the call, which is \<open>nil\<close> when the call succeeded.
\<close>

theorem CloseMilestone_not_found:
  assumes edit: "sdk_EditMilestoneByName cl (Owner repo) (Name repo) title
                   \<lparr>em_State = Some StateClosed, em_Title = title\<rparr> (remote w) = (r, s')"
  shows "CloseMilestone cl c repo title w =
           ((if is_not_found (sdk_resp r) then Some (ErrNoMilestoneFound title)
             else map_option External (sdk_err r)), w\<lparr>remote := s'\<rparr>)
       \<and> ((\<exists>t. fst (CloseMilestone cl c repo title w) = Some (ErrNoMilestoneFound t))
            = (\<exists>resp. sdk_resp r = Some resp \<and> StatusCode resp = 404))
       \<and> (fst (CloseMilestone cl c repo title w) = None
            = (\<not> is_not_found (sdk_resp r) \<and> sdk_err r = None))"
proof -
  have eq: "CloseMilestone cl c repo title w =
           ((if is_not_found (sdk_resp r) then Some (ErrNoMilestoneFound title)
             else map_option External (sdk_err r)), w\<lparr>remote := s'\<rparr>)"
    using edit by (simp add: CloseMilestone_def call_def)
  have nf: "is_not_found (sdk_resp r) = (\<exists>resp. sdk_resp r = Some resp \<and> StatusCode resp = 404)"
    by (cases "sdk_resp r") (simp_all add: is_not_found_def)
  have ext: "map_option External (sdk_err r) \<noteq> Some (ErrNoMilestoneFound t)" for t
    by (cases "sdk_err r") simp_all
  show ?thesis
    unfolding eq using nf ext by auto
qed

text \<open>
  Status 404 gives the distinguished error, status 500 gives the provider's error, and a
  successful call gives no error.
\<close>

theorem CloseMilestone_not_found_witness:
  "CloseMilestone
     (recorder (all_ok\<lparr>on_EditMilestoneByName := Failed (http 404) (ExtError ''404 Not Found'')\<rparr>))
     ctx0 repo0 ''v1.0.0'' w0
   = (Some (ErrNoMilestoneFound ''v1.0.0''),
      \<lparr>remote = [EditMilestoneByNameCall ''owner'' ''tap'' ''v1.0.0''
                    \<lparr>em_State = Some StateClosed, em_Title = ''v1.0.0''\<rparr>],
       logged = []\<rparr>)
   \<and> CloseMilestone
     (recorder (all_ok\<lparr>on_EditMilestoneByName := Failed (http 500) (ExtError ''boom'')\<rparr>))
     ctx0 repo0 ''v1.0.0'' w0
   = (Some (External (ExtError ''boom'')),
      \<lparr>remote = [EditMilestoneByNameCall ''owner'' ''tap'' ''v1.0.0''
                    \<lparr>em_State = Some StateClosed, em_Title = ''v1.0.0''\<rparr>],
       logged = []\<rparr>)
   \<and> fst (CloseMilestone (recorder all_ok) ctx0 repo0 ''v1.0.0'' w0) = None"
proof -
  let ?opts = "\<lparr>em_State = Some StateClosed, em_Title = ''v1.0.0''\<rparr>"
  let ?call = "EditMilestoneByNameCall ''owner'' ''tap'' ''v1.0.0'' ?opts"
  have a: "sdk_EditMilestoneByName
             (recorder (all_ok\<lparr>on_EditMilestoneByName := Failed (http 404) (ExtError ''404 Not Found'')\<rparr>))
             (Owner repo0) (Name repo0) ''v1.0.0'' ?opts (remote w0)
           = (Failed (http 404) (ExtError ''404 Not Found''), [?call])"
    by (simp add: recorder_def repo0_def w0_def)
  have b: "sdk_EditMilestoneByName
             (recorder (all_ok\<lparr>on_EditMilestoneByName := Failed (http 500) (ExtError ''boom'')\<rparr>))
             (Owner repo0) (Name repo0) ''v1.0.0'' ?opts (remote w0)
           = (Failed (http 500) (ExtError ''boom''), [?call])"
    by (simp add: recorder_def repo0_def w0_def)
  have c: "sdk_EditMilestoneByName (recorder all_ok) (Owner repo0) (Name repo0) ''v1.0.0'' ?opts
             (remote w0)
           = (Ok () (http 200), [?call])"
    by (simp add: recorder_def repo0_def w0_def all_ok_def)
  from CloseMilestone_not_found [OF a, of ctx0] CloseMilestone_not_found [OF b, of ctx0]
       CloseMilestone_not_found [OF c, of ctx0]
  show ?thesis
    by (simp add: http_def is_not_found_def w0_def)
qed

subsection \<open>Changelog\<close>

text \<open>
  The first element of a split is the text before the first separator, and the loop
  appends one item per commit.
\<close>

lemma strings_Split_not_empty: "strings_Split s sep \<noteq> []"
  by (induction s) (auto split: list.splits)

lemma hd_strings_Split: "hd (strings_Split s sep) = takeWhile (\<lambda>ch. ch \<noteq> sep) s"
  by (induction s) (auto split: list.splits simp: strings_Split_not_empty)

lemma Changelog_loop_map: "Changelog_loop commits log = log @ map Changelog_item commits"
  by (induction commits arbitrary: log) auto

text \<open>
  Claim C8. A successful \<open>Changelog\<close> comes from a successful \<open>CompareCommits\<close>, and
  its list is the provider's commit list mapped commit by commit, in the provider's
  order: the SHA, the message up to the first newline, and the author's name, email and
  user name when the commit has an author, empty strings when it has none.
\<close>

theorem Changelog_order:
  assumes "Changelog cl c repo prev current w = (Inr items, w')"
  shows "\<exists>result resp.
           call (sdk_CompareCommits cl (Owner repo) (Name repo) prev current) w
             = (Ok result resp, w')
         \<and> length items = length (Commits result)
         \<and> items =
             map (\<lambda>commit.
                    \<lparr>ci_SHA = SHA commit,
                     ci_Message = takeWhile (\<lambda>ch. ch \<noteq> CHR 0x0A) (Message (RepoCommit commit)),
                     AuthorName = (case Author commit of None \<Rightarrow> '''' | Some a \<Rightarrow> FullName a),
                     AuthorEmail = (case Author commit of None \<Rightarrow> '''' | Some a \<Rightarrow> Email a),
                     AuthorUsername = (case Author commit of None \<Rightarrow> '''' | Some a \<Rightarrow> UserName a)\<rparr>)
                 (Commits result)"
proof -
  have item: "Changelog_item commit =
      \<lparr>ci_SHA = SHA commit,
       ci_Message = takeWhile (\<lambda>ch. ch \<noteq> CHR 0x0A) (Message (RepoCommit commit)),
       AuthorName = (case Author commit of None \<Rightarrow> '''' | Some a \<Rightarrow> FullName a),
       AuthorEmail = (case Author commit of None \<Rightarrow> '''' | Some a \<Rightarrow> Email a),
       AuthorUsername = (case Author commit of None \<Rightarrow> '''' | Some a \<Rightarrow> UserName a)\<rparr>"
    for commit
    by (cases "Author commit") (simp_all add: Changelog_item_def hd_strings_Split)
  from assms obtain result resp where
    ok: "call (sdk_CompareCommits cl (Owner repo) (Name repo) prev current) w = (Ok result resp, w')"
    and it: "items = Changelog_loop (Commits result) []"
    by (auto simp: Changelog_def split: prod.splits sdk_result.splits)
  from it have "items = map Changelog_item (Commits result)"
    by (simp add: Changelog_loop_map)
  with ok item show ?thesis by (intro exI[of _ result] exI[of _ resp]) simp
qed

text \<open>
  Two commits, the first with a message of three lines and an author, the second with
  no author.
\<close>

theorem Changelog_order_witness:
  "Changelog
     (recorder (all_ok\<lparr>on_CompareCommits :=
        Ok \<lparr>Commits =
              [\<lparr>SHA = ''aaa'', RepoCommit = \<lparr>Message = ''feat: one'' @ [CHR 0x0A] @ ''body''\<rparr>,
                Author = Some \<lparr>FullName = ''Ann'', Email = ''ann@example.com'', UserName = ''ann''\<rparr>\<rparr>,
               \<lparr>SHA = ''bbb'', RepoCommit = \<lparr>Message = ''fix: two''\<rparr>, Author = None\<rparr>]\<rparr>
           (http 200)\<rparr>))
     ctx0 repo0 ''v0.9.0'' ''v1.0.0'' w0
   = (Inr [\<lparr>ci_SHA = ''aaa'', ci_Message = ''feat: one'', AuthorName = ''Ann'',
            AuthorEmail = ''ann@example.com'', AuthorUsername = ''ann''\<rparr>,
           \<lparr>ci_SHA = ''bbb'', ci_Message = ''fix: two'', AuthorName = '''',
            AuthorEmail = '''', AuthorUsername = ''''\<rparr>],
      \<lparr>remote = [CompareCommitsCall ''owner'' ''tap'' ''v0.9.0'' ''v1.0.0''], logged = []\<rparr>)"
proof -
  let ?cmp = "\<lparr>Commits =
              [\<lparr>SHA = ''aaa'', RepoCommit = \<lparr>Message = ''feat: one'' @ [CHR 0x0A] @ ''body''\<rparr>,
                Author = Some \<lparr>FullName = ''Ann'', Email = ''ann@example.com'', UserName = ''ann''\<rparr>\<rparr>,
               \<lparr>SHA = ''bbb'', RepoCommit = \<lparr>Message = ''fix: two''\<rparr>, Author = None\<rparr>]\<rparr>"
  let ?cl = "recorder (all_ok\<lparr>on_CompareCommits := Ok ?cmp (http 200)\<rparr>)"
  let ?w = "\<lparr>remote = [CompareCommitsCall ''owner'' ''tap'' ''v0.9.0'' ''v1.0.0''], logged = []\<rparr>"
  have cc: "call (sdk_CompareCommits ?cl (Owner repo0) (Name repo0) ''v0.9.0'' ''v1.0.0'') w0
      = (Ok ?cmp (http 200), ?w)"
    by (simp add: call_def recorder_def repo0_def w0_def)
  have "\<exists>items. Changelog ?cl ctx0 repo0 ''v0.9.0'' ''v1.0.0'' w0 = (Inr items, ?w)"
    unfolding Changelog_def cc by simp
  then obtain items where ch: "Changelog ?cl ctx0 repo0 ''v0.9.0'' ''v1.0.0'' w0 = (Inr items, ?w)"
    by blast
  from Changelog_order [OF ch] have
    "items = [\<lparr>ci_SHA = ''aaa'', ci_Message = ''feat: one'', AuthorName = ''Ann'',
            AuthorEmail = ''ann@example.com'', AuthorUsername = ''ann''\<rparr>,
           \<lparr>ci_SHA = ''bbb'', ci_Message = ''fix: two'', AuthorName = '''',
            AuthorEmail = '''', AuthorUsername = ''''\<rparr>]"
    unfolding cc by simp
  with ch show ?thesis by simp
qed

subsection \<open>The constructor\<close>

text \<open>
  Claim C10. For the token \<open>giteatoken\<close> the options handed to \<open>gitea.NewClient\<close> are
  the HTTP client alone; for every other token they are the HTTP client and
  \<open>SetToken token\<close>. No other \<open>SetToken\<close> option is ever in the list, and the
  constructor hands exactly this list to \<open>gitea.NewClient\<close>.
\<close>

theorem newGitea_token:
  "newGitea_options c ''giteatoken''
     = [SetHTTPClient \<lparr>InsecureSkipVerify = SkipTLSVerify (GiteaURLs (Config c))\<rparr>]
   \<and> (token \<noteq> ''giteatoken'' \<longrightarrow>
        newGitea_options c token
          = [SetHTTPClient \<lparr>InsecureSkipVerify = SkipTLSVerify (GiteaURLs (Config c))\<rparr>,
             SetToken token])
   \<and> (\<forall>t. (SetToken t \<in> set (newGitea_options c token)) = (t = token \<and> token \<noteq> ''giteatoken''))
   \<and> (\<forall>url. getInstanceURL x c = Inr url \<longrightarrow>
        newGitea x sdk c token =
          (case NewClient sdk url (newGitea_options c token) of
             Inl err \<Rightarrow> Inl (External err)
           | Inr client \<Rightarrow>
               (case apply_option sdk (SetContext c) client of
                  Inl err \<Rightarrow> Inl (External err)
                | Inr client' \<Rightarrow> Inr client')))"
  by (auto simp: newGitea_options_def newGitea_def Let_def)

text \<open>
  With an SDK whose clients record their token: no token for \<open>giteatoken\<close>, and the
  token itself for \<open>s3cret\<close> and for \<open>Giteatoken\<close>.
\<close>

theorem newGitea_token_witness:
  "newGitea x0 sdk0 ctx0 ''giteatoken''
     = Inr \<lparr>client_url = ''https://gitea.example'', accessToken = '''', client_insecure = False\<rparr>
   \<and> newGitea x0 sdk0 ctx0 ''s3cret''
     = Inr \<lparr>client_url = ''https://gitea.example'', accessToken = ''s3cret'',
            client_insecure = False\<rparr>
   \<and> newGitea x0 sdk0 ctx0 ''Giteatoken''
     = Inr \<lparr>client_url = ''https://gitea.example'', accessToken = ''Giteatoken'',
            client_insecure = False\<rparr>"
proof -
  have u: "getInstanceURL x0 ctx0 = Inr ''https://gitea.example''"
    by (simp add: getInstanceURL_def x0_def ctx0_def)
  have s: "SkipTLSVerify (GiteaURLs (Config ctx0)) = False"
    by (simp add: ctx0_def)
  from newGitea_token [of ctx0 "''giteatoken''" x0 sdk0]
       newGitea_token [of ctx0 "''s3cret''" x0 sdk0]
       newGitea_token [of ctx0 "''Giteatoken''" x0 sdk0]
  show ?thesis
    by (simp add: u s sdk0_def)
qed

end
